theory Spec2Isabelle
  imports Main "HOL-Library.AList"
begin

section \<open>Data model of server.js\<close>

text \<open>
  The server keeps its state in JavaScript objects that are shared by reference: a room
  object is reachable from the \<open>rooms\<close> table and from the closures of pending disconnect
  timers, a player object from its room's \<open>players\<close> Map and from the same closures. The
  model therefore has an explicit store: objects live at addresses (\<open>nat\<close>), and tables and
  closures hold addresses. A JavaScript \<open>Map\<close> that is iterated (\<open>room.players\<close>) is an
  association list in insertion order (\<open>AList.update\<close> keeps the position of an existing
  key and appends a new one, \<open>AList.delete\<close> removes the key, as \<open>Map.set\<close> and
  \<open>Map.delete\<close> do); a Map that is only looked up is a HOL map.
\<close>

datatype phase = Lobby | Roles | Ready | Reveal

record player =
  player_id :: string
  player_name :: string
  socketId :: string
  sessionId :: string
  roleId :: "string option"
  hasSubmittedRole :: bool
  connected :: bool
  disconnectTimer :: "nat option"

record room =
  code :: string
  ownerId :: string
  gameId :: "string option"
  phase :: phase
  players :: "(string \<times> nat) list"

text \<open>
  The game definitions read from \<open>data/games/*.json\<close>. An absent \<open>partyId\<close> or \<open>scope\<close> is
  \<open>None\<close>, an absent \<open>visibleRoleIds\<close> or \<open>visiblePartyIds\<close> is \<open>[]\<close> and an \<open>includeSelf\<close> other than
  \<open>true\<close> is \<open>False\<close>, as \<open>getRevealForPlayer\<close> reads them. The arrays \<open>roles\<close> and \<open>revealRules\<close>
  are read unguarded (\<open>game.revealRules.find\<close>, \<open>game.roles.map\<close>): the record describes a
  definition that carries both, and a file without one makes \<open>getRevealForPlayer\<close> throw.
\<close>

record role =
  role_id :: string
  role_name :: string
  partyId :: "string option"

record revealRule =
  entry_roleId :: string
  scope :: "string option"
  visibleRoleIds :: "string list"
  visiblePartyIds :: "string list"
  includeSelf :: bool

record game =
  game_id :: string
  game_name :: string
  roles :: "role list"
  revealRules :: "revealRule list"

text \<open>Entries of \<open>socketIndex\<close> and \<open>sessionIndex\<close>.\<close>

record socketEntry =
  ix_code :: string
  ix_playerId :: string
  ix_sessionId :: string

record sessionEntry =
  ss_code :: string
  ss_playerId :: string

text \<open>The payloads of \<open>room:state\<close> and \<open>room:reveal\<close>.\<close>

record roomPlayer =
  rp_id :: string
  rp_name :: string
  rp_hasSubmittedRole :: bool

record roomState =
  st_code :: string
  st_ownerId :: string
  st_gameId :: "string option"
  st_phase :: phase
  st_players :: "roomPlayer list"

record visiblePlayer =
  playerId :: string
  vp_name :: string
  vp_roleId :: "string option"

record revealPayload =
  rv_gameId :: "string option"
  visiblePlayers :: "visiblePlayer list"

text \<open>What a handler sends, in the order it sends it.\<close>

datatype outbound =
    RoomError string string
  | RoomJoined string string bool string string
  | RoomStateMsg string roomState
  | RoomRevealMsg string revealPayload
  | RoomResetMsg string
  | RoomLeft string
  | SocketJoin string string
  | SocketLeave string string

record state =
  roomObj :: "nat \<Rightarrow> room"
  playerObj :: "nat \<Rightarrow> player"
  nextRoom :: nat
  nextPlayer :: nat
  rooms :: "string \<rightharpoonup> nat"
  socketIndex :: "string \<rightharpoonup> socketEntry"
  sessionIndex :: "string \<rightharpoonup> sessionEntry"
  timers :: "nat \<rightharpoonup> nat \<times> nat"
  nextTimer :: nat

section \<open>Pure functions\<close>

text \<open>\<open>Array.from(room.players.values())\<close>, the player objects read from the store.\<close>

definition playerValues :: "(nat \<Rightarrow> player) \<Rightarrow> room \<Rightarrow> player list" where
  "playerValues objs rm = map (\<lambda>(k, a). objs a) (players rm)"

definition serializeRoom :: "(nat \<Rightarrow> player) \<Rightarrow> room \<Rightarrow> roomState" where
  "serializeRoom objs rm =
     \<lparr>st_code = code rm, st_ownerId = ownerId rm, st_gameId = gameId rm, st_phase = phase rm,
      st_players = map (\<lambda>p. \<lparr>rp_id = player_id p, rp_name = player_name p,
                                 rp_hasSubmittedRole = hasSubmittedRole p\<rparr>)
                       (playerValues objs rm)\<rparr>"

definition toVisible :: "player \<Rightarrow> visiblePlayer" where
  "toVisible item = \<lparr>playerId = player_id item, vp_name = player_name item, vp_roleId = roleId item\<rparr>"

text \<open>
  \<open>new Map(game.roles.map((role) => [role.id, role]))\<close>: a later role with the same id
  replaces an earlier one.
\<close>

definition roleById :: "game \<Rightarrow> string \<rightharpoonup> role" where
  "roleById g = map_of (rev (map (\<lambda>r. (role_id r, r)) (roles g)))"

text \<open>The object \<open>{ scope: "self" }\<close> used when no entry matches.\<close>

definition selfRule :: revealRule where
  "selfRule = \<lparr>entry_roleId = [], scope = Some ''self'', visibleRoleIds = [],
               visiblePartyIds = [], includeSelf = False\<rparr>"

definition findRule :: "game \<Rightarrow> player \<Rightarrow> revealRule option" where
  "findRule g pl = find (\<lambda>entry. Some (entry_roleId entry) = roleId pl) (revealRules g)"

text \<open>The predicate of the \<open>players.filter\<close> of the custom branch.\<close>

definition customVisible :: "game \<Rightarrow> revealRule \<Rightarrow> player \<Rightarrow> player \<Rightarrow> bool" where
  "customVisible g rule pl item =
     (if includeSelf rule \<and> player_id item = player_id pl then True
      else if (case roleId item of None \<Rightarrow> False | Some rid \<Rightarrow> rid \<in> set (visibleRoleIds rule))
      then True
      else (case (case roleId item of None \<Rightarrow> None | Some rid \<Rightarrow> roleById g rid) of
              None \<Rightarrow> False
            | Some rl \<Rightarrow> (case partyId rl of
                            None \<Rightarrow> False
                          | Some party \<Rightarrow> party \<noteq> [] \<and> party \<in> set (visiblePartyIds rule))))"

text \<open>\<open>gameMap.get(room.gameId)\<close>; a room without a game has \<open>gameId\<close> \<open>null\<close>, which is no key.\<close>

definition lookupGame :: "(string \<rightharpoonup> game) \<Rightarrow> room \<Rightarrow> game option" where
  "lookupGame gameMap rm = (case gameId rm of None \<Rightarrow> None | Some gid \<Rightarrow> gameMap gid)"

definition getRevealForPlayer ::
  "(string \<rightharpoonup> game) \<Rightarrow> (nat \<Rightarrow> player) \<Rightarrow> room \<Rightarrow> player \<Rightarrow> revealPayload" where
  "getRevealForPlayer gameMap objs rm pl =
     (case lookupGame gameMap rm of
        None \<Rightarrow> \<lparr>rv_gameId = gameId rm, visiblePlayers = []\<rparr>
      | Some g \<Rightarrow>
          (let rule = (case findRule g pl of Some entry \<Rightarrow> entry | None \<Rightarrow> selfRule);
               ps = playerValues objs rm
           in if scope rule = Some ''all''
              then \<lparr>rv_gameId = gameId rm, visiblePlayers = map toVisible ps\<rparr>
              else if scope rule = Some ''self''
              then \<lparr>rv_gameId = gameId rm, visiblePlayers = [toVisible pl]\<rparr>
              else \<lparr>rv_gameId = gameId rm,
                    visiblePlayers = map toVisible (filter (customVisible g rule pl) ps)\<rparr>))"


section \<open>Strings\<close>

text \<open>
  JavaScript truthiness of an optional string (\<open>undefined\<close>, \<open>null\<close> and \<open>""\<close> are falsy), and
  \<open>a || b\<close> on such a value.
\<close>

definition truthy :: "string option \<Rightarrow> bool" where
  "truthy v = (case v of None \<Rightarrow> False | Some x \<Rightarrow> x \<noteq> [])"

definition orElse :: "string option \<Rightarrow> string \<Rightarrow> string" where
  "orElse v d = (case v of None \<Rightarrow> d | Some x \<Rightarrow> if x = [] then d else x)"

text \<open>
  \<open>String.prototype.trim\<close> and \<open>String.prototype.toLowerCase\<close> belong to the JavaScript
  runtime, not to this repository: they are parameters of the model, and everything proved
  holds whatever the two functions are.
\<close>

record builtins =
  js_trim :: "string \<Rightarrow> string"
  js_toLowerCase :: "string \<Rightarrow> string"

definition normalizeName :: "builtins \<Rightarrow> string \<Rightarrow> string" where
  "normalizeName js name' = js_toLowerCase js (js_trim js (orElse (Some name') []))"

text \<open>\<open>String(n)\<close> for a natural number: its decimal digits.\<close>

fun String_of :: "nat \<Rightarrow> string" where
  "String_of n = (if n < 10 then [''0123456789'' ! n]
                  else String_of (n div 10) @ [''0123456789'' ! (n mod 10)])"

declare String_of.simps [simp del]

section \<open>Room codes\<close>

text \<open>
  \<open>generateRoomCode\<close> draws until the code is free. The random source is the sequence
  \<open>draws\<close> of the integers \<open>Math.floor(Math.random() * 9000)\<close>; \<open>i\<close> is the number of draws
  already made. A source that never yields a free code makes the loop run forever: the
  result is \<open>None\<close>.
\<close>

partial_function (option) generateRoomCode ::
  "(string \<rightharpoonup> nat) \<Rightarrow> (nat \<Rightarrow> nat) \<Rightarrow> nat \<Rightarrow> string option" where
  [code]: "generateRoomCode rms draws i =
     (let code' = String_of (1000 + draws i)
      in if rms code' \<noteq> None then generateRoomCode rms draws (Suc i) else Some code')"

section \<open>Operations on the store\<close>

definition updPlayer :: "nat \<Rightarrow> (player \<Rightarrow> player) \<Rightarrow> state \<Rightarrow> state" where
  "updPlayer a f s = s\<lparr>playerObj := (playerObj s)(a := f (playerObj s a))\<rparr>"

definition updRoom :: "nat \<Rightarrow> (room \<Rightarrow> room) \<Rightarrow> state \<Rightarrow> state" where
  "updRoom r f s = s\<lparr>roomObj := (roomObj s)(r := f (roomObj s r))\<rparr>"

text \<open>Allocation of a fresh object.\<close>

definition newPlayer :: "player \<Rightarrow> state \<Rightarrow> nat \<times> state" where
  "newPlayer p s =
     (nextPlayer s, s\<lparr>playerObj := (playerObj s)(nextPlayer s := p), nextPlayer := Suc (nextPlayer s)\<rparr>)"

definition newRoom :: "room \<Rightarrow> state \<Rightarrow> nat \<times> state" where
  "newRoom rm s =
     (nextRoom s, s\<lparr>roomObj := (roomObj s)(nextRoom s := rm), nextRoom := Suc (nextRoom s)\<rparr>)"

text \<open>
  \<open>setTimeout\<close> registers the closure (the addresses of the room and the player it
  captured) under a fresh handle; \<open>clearTimeout\<close> drops a handle, pending or not.
\<close>

definition setTimeout :: "nat \<times> nat \<Rightarrow> state \<Rightarrow> nat \<times> state" where
  "setTimeout closure s =
     (nextTimer s, s\<lparr>timers := (timers s)(nextTimer s \<mapsto> closure), nextTimer := Suc (nextTimer s)\<rparr>)"

definition clearTimeout :: "nat \<Rightarrow> state \<Rightarrow> state" where
  "clearTimeout t s = s\<lparr>timers := (timers s)(t := None)\<rparr>"

text \<open>\<open>uuid\<close> is the value \<open>crypto.randomUUID()\<close> returned.\<close>

definition createPlayer :: "string \<Rightarrow> string \<Rightarrow> string \<Rightarrow> string \<Rightarrow> player" where
  "createPlayer uuid name' socket sessionId' =
     \<lparr>player_id = uuid, player_name = name', socketId = socket, sessionId = sessionId',
      roleId = None, hasSubmittedRole = False, connected = True, disconnectTimer = None\<rparr>"

definition bindSession :: "string \<Rightarrow> string \<Rightarrow> nat \<Rightarrow> string \<Rightarrow> state \<Rightarrow> state" where
  "bindSession sessionId' code' a socket s =
     (let s1 = updPlayer a (\<lambda>p. p\<lparr>socketId := socket, sessionId := sessionId', connected := True\<rparr>) s;
          s2 = (case disconnectTimer (playerObj s1 a) of
                  None \<Rightarrow> s1
                | Some t \<Rightarrow> updPlayer a (\<lambda>p. p\<lparr>disconnectTimer := None\<rparr>) (clearTimeout t s1))
      in s2\<lparr>socketIndex := (socketIndex s2)(socket \<mapsto>
                \<lparr>ix_code = code', ix_playerId = player_id (playerObj s2 a), ix_sessionId = sessionId'\<rparr>),
             sessionIndex := (sessionIndex s2)(sessionId' \<mapsto>
                \<lparr>ss_code = code', ss_playerId = player_id (playerObj s2 a)\<rparr>)\<rparr>)"

definition resetRoles :: "nat \<Rightarrow> state \<Rightarrow> state" where
  "resetRoles r s =
     fold (\<lambda>(k, a). updPlayer a (\<lambda>p. p\<lparr>roleId := None, hasSubmittedRole := False\<rparr>))
          (players (roomObj s r)) s"

definition emitRoomState :: "state \<Rightarrow> nat \<Rightarrow> outbound" where
  "emitRoomState s r = RoomStateMsg (code (roomObj s r)) (serializeRoom (playerObj s) (roomObj s r))"

text \<open>
  \<open>removePlayerFromRoom\<close>. After the deletion an empty room is deleted from \<open>rooms\<close>;
  otherwise an owner who left is replaced by \<open>room.players.values().next().value\<close>, the
  first entry of the Map (\<open>hd\<close>, here of a list that is not empty), and the room state is
  broadcast.
\<close>

definition removePlayerFromRoom ::
  "nat \<Rightarrow> string \<Rightarrow> string \<Rightarrow> string \<Rightarrow> state \<Rightarrow> state \<times> outbound list" where
  "removePlayerFromRoom r pid sessionId' socket s =
     (case map_of (players (roomObj s r)) pid of
        None \<Rightarrow> (s, [])
      | Some a \<Rightarrow>
          (let s1 = (case disconnectTimer (playerObj s a) of
                       None \<Rightarrow> s
                     | Some t \<Rightarrow> updPlayer a (\<lambda>p. p\<lparr>disconnectTimer := None\<rparr>) (clearTimeout t s));
               s2 = updRoom r (\<lambda>rm. rm\<lparr>players := AList.delete pid (players rm)\<rparr>) s1;
               s3 = (if sessionId' \<noteq> [] then s2\<lparr>sessionIndex := (sessionIndex s2)(sessionId' := None)\<rparr>
                     else s2);
               s4 = (if socket \<noteq> [] then s3\<lparr>socketIndex := (socketIndex s3)(socket := None)\<rparr>
                     else s3)
           in if players (roomObj s4 r) = []
              then (s4\<lparr>rooms := (rooms s4)(code (roomObj s4 r) := None)\<rparr>, [])
              else (let s5 = (if ownerId (roomObj s4 r) = pid
                              then updRoom r (\<lambda>rm. rm\<lparr>ownerId :=
                                     player_id (playerObj s4 (snd (hd (players (roomObj s4 r)))))\<rparr>) s4
                              else s4)
                    in (s5, [emitRoomState s5 r]))))"

text \<open>
  The callback of the disconnect timer, on the room and the player it captured. It ends
  as \<open>removePlayerFromRoom\<close> does.
\<close>

definition graceCallback :: "nat \<Rightarrow> nat \<Rightarrow> state \<Rightarrow> state \<times> outbound list" where
  "graceCallback r a s =
     (if connected (playerObj s a) then (s, [])
      else (let s1 = updRoom r (\<lambda>rm. rm\<lparr>players :=
                       AList.delete (player_id (playerObj s a)) (players rm)\<rparr>) s;
                s2 = s1\<lparr>sessionIndex := (sessionIndex s1)(sessionId (playerObj s1 a) := None)\<rparr>
            in if players (roomObj s2 r) = []
               then (s2\<lparr>rooms := (rooms s2)(code (roomObj s2 r) := None)\<rparr>, [])
               else (let s3 = (if ownerId (roomObj s2 r) = player_id (playerObj s2 a)
                               then updRoom r (\<lambda>rm. rm\<lparr>ownerId :=
                                      player_id (playerObj s2 (snd (hd (players (roomObj s2 r)))))\<rparr>) s2
                               else s2)
                     in (s3, [emitRoomState s3 r]))))"

section \<open>Event handlers\<close>

text \<open>
  Each handler takes the state and returns the new state and what it sent. \<open>socket\<close> is
  \<open>socket.id\<close> of the connection the event arrived on; \<open>gameMap\<close> is the catalogue loaded at
  startup. Payload fields that a handler tests for truthiness are optional strings
  (\<open>None\<close>: absent or \<open>null\<close>); the others are strings.
\<close>

text \<open>
  The owner check of the host's handlers passes when
  \<open>index && index.playerId === room.ownerId\<close>, for \<open>index = socketIndex.get(socket.id)\<close>.
\<close>

definition isHost :: "state \<Rightarrow> string \<Rightarrow> nat \<Rightarrow> bool" where
  "isHost s socket r =
     (case socketIndex s socket of
        None \<Rightarrow> False
      | Some index \<Rightarrow> ix_playerId index = ownerId (roomObj s r))"

text \<open>\<open>Array.from(room.players.values()).every((item) => item.hasSubmittedRole)\<close>.\<close>

definition allSubmitted :: "state \<Rightarrow> nat \<Rightarrow> bool" where
  "allSubmitted s r = list_all hasSubmittedRole (playerValues (playerObj s) (roomObj s r))"

definition sessionRestore ::
  "(string \<rightharpoonup> game) \<Rightarrow> string \<Rightarrow> string option \<Rightarrow> state \<Rightarrow> state \<times> outbound list" where
  "sessionRestore gameMap socket sessionId' s =
     (if \<not> truthy sessionId' then (s, [])
      else (case sessionIndex s (orElse sessionId' []) of
              None \<Rightarrow> (s, [])
            | Some session \<Rightarrow>
               (case rooms s (ss_code session) of
                  None \<Rightarrow> (s\<lparr>sessionIndex := (sessionIndex s)(orElse sessionId' [] := None)\<rparr>, [])
                | Some r \<Rightarrow>
                   (case map_of (players (roomObj s r)) (ss_playerId session) of
                      None \<Rightarrow> (s\<lparr>sessionIndex := (sessionIndex s)(orElse sessionId' [] := None)\<rparr>, [])
                    | Some a \<Rightarrow>
                       (let s1 = bindSession (orElse sessionId' []) (code (roomObj s r)) a socket s;
                            rm = roomObj s1 r;
                            pl = playerObj s1 a
                        in (s1, [SocketJoin socket (code rm),
                                 RoomJoined socket (player_id pl) (player_id pl = ownerId rm)
                                   (code rm) (orElse sessionId' []),
                                 emitRoomState s1 r]
                                @ (if phase rm = Reveal \<and> truthy (roleId pl)
                                   then [RoomRevealMsg (socketId pl)
                                           (getRevealForPlayer gameMap (playerObj s1) rm pl)]
                                   else [])))))))"

text \<open>
  \<open>room:create\<close>. \<open>sessionUuid\<close> and \<open>playerUuid\<close> are the values of the two
  \<open>crypto.randomUUID()\<close> calls, \<open>draws\<close> the random source of the room code. The result is
  \<open>None\<close> when the code generation does not return.
\<close>

definition roomCreate ::
  "string \<Rightarrow> string option \<Rightarrow> string option \<Rightarrow> string \<Rightarrow> (nat \<Rightarrow> nat) \<Rightarrow> string \<Rightarrow> state
     \<Rightarrow> (state \<times> outbound list) option" where
  "roomCreate socket name' rawSessionId sessionUuid draws playerUuid s =
     (let sessionId' = orElse rawSessionId sessionUuid in
      if \<not> truthy name' then Some (s, [RoomError socket ''Name is required''])
      else (case generateRoomCode (rooms s) draws 0 of
              None \<Rightarrow> None
            | Some code' \<Rightarrow>
               (let (a, s1) = newPlayer (createPlayer playerUuid (orElse name' []) socket sessionId') s;
                    (r, s2) = newRoom \<lparr>code = code', ownerId = player_id (playerObj s1 a),
                                        gameId = None, phase = Lobby,
                                        players = [(player_id (playerObj s1 a), a)]\<rparr> s1;
                    s3 = s2\<lparr>rooms := (rooms s2)(code' \<mapsto> r)\<rparr>;
                    s4 = bindSession sessionId' code' a socket s3
                in Some (s4, [SocketJoin socket code',
                              RoomJoined socket (player_id (playerObj s4 a)) True code' sessionId',
                              emitRoomState s4 r]))))"

definition roomJoin ::
  "builtins \<Rightarrow> string \<Rightarrow> string option \<Rightarrow> string option \<Rightarrow> string option \<Rightarrow> string \<Rightarrow> string \<Rightarrow> state
     \<Rightarrow> state \<times> outbound list" where
  "roomJoin js socket code' name' rawSessionId sessionUuid playerUuid s =
     (let sessionId' = orElse rawSessionId sessionUuid in
      if \<not> truthy code' \<or> \<not> truthy name' then (s, [RoomError socket ''Code and name are required''])
      else (case rooms s (orElse code' []) of
              None \<Rightarrow> (s, [RoomError socket ''Room not found''])
            | Some r \<Rightarrow>
               (let normalizedName = normalizeName js (orElse name' []);
                    nameTaken = list_ex (\<lambda>p. normalizeName js (player_name p) = normalizedName)
                                  (playerValues (playerObj s) (roomObj s r))
                in if nameTaken
                   then (s, [RoomError socket ''That name is already taken in this room''])
                   else if phase (roomObj s r) \<noteq> Lobby
                   then (s, [RoomError socket ''Game already started''])
                   else (let (a, s1) = newPlayer (createPlayer playerUuid (orElse name' []) socket
                                                    sessionId') s;
                             s2 = updRoom r (\<lambda>rm. rm\<lparr>players :=
                                    AList.update (player_id (playerObj s1 a)) a (players rm)\<rparr>) s1;
                             s3 = bindSession sessionId' (orElse code' []) a socket s2
                         in (s3, [SocketJoin socket (orElse code' []),
                                  RoomJoined socket (player_id (playerObj s3 a)) False
                                    (orElse code' []) sessionId',
                                  emitRoomState s3 r])))))"

definition roomSelectGame ::
  "(string \<rightharpoonup> game) \<Rightarrow> string \<Rightarrow> string \<Rightarrow> string \<Rightarrow> state \<Rightarrow> state \<times> outbound list" where
  "roomSelectGame gameMap socket code' gameId' s =
     (case rooms s code' of
        None \<Rightarrow> (s, [RoomError socket ''Room not found''])
      | Some r \<Rightarrow>
         if \<not> isHost s socket r then (s, [RoomError socket ''Only the host can select the game''])
         else if gameMap gameId' = None then (s, [RoomError socket ''Unknown game''])
         else (let s1 = updRoom r (\<lambda>rm. rm\<lparr>gameId := Some gameId', phase := Lobby\<rparr>) s;
                   s2 = resetRoles r s1
               in (s2, [emitRoomState s2 r])))"

definition roomStart :: "string \<Rightarrow> string \<Rightarrow> state \<Rightarrow> state \<times> outbound list" where
  "roomStart socket code' s =
     (case rooms s code' of
        None \<Rightarrow> (s, [RoomError socket ''Room not found''])
      | Some r \<Rightarrow>
         if \<not> isHost s socket r then (s, [RoomError socket ''Only the host can start the game''])
         else if \<not> truthy (gameId (roomObj s r)) then (s, [RoomError socket ''Select a game first''])
         else (let s1 = updRoom r (\<lambda>rm. rm\<lparr>phase := Roles\<rparr>) s;
                   s2 = resetRoles r s1
               in (s2, [emitRoomState s2 r])))"

definition roomReset :: "string \<Rightarrow> string \<Rightarrow> state \<Rightarrow> state \<times> outbound list" where
  "roomReset socket code' s =
     (case rooms s code' of
        None \<Rightarrow> (s, [RoomError socket ''Room not found''])
      | Some r \<Rightarrow>
         if \<not> isHost s socket r then (s, [RoomError socket ''Only the host can reset the game''])
         else (let s1 = updRoom r (\<lambda>rm. rm\<lparr>gameId := None, phase := Lobby\<rparr>) s;
                   s2 = resetRoles r s1
               in (s2, [emitRoomState s2 r, RoomResetMsg (code (roomObj s2 r))])))"

definition roomLeave :: "string \<Rightarrow> state \<Rightarrow> state \<times> outbound list" where
  "roomLeave socket s =
     (case socketIndex s socket of
        None \<Rightarrow> (s, [])
      | Some index \<Rightarrow>
         (case rooms s (ix_code index) of
            None \<Rightarrow>
              (let s1 = s\<lparr>socketIndex := (socketIndex s)(socket := None)\<rparr>
               in (if ix_sessionId index \<noteq> []
                   then s1\<lparr>sessionIndex := (sessionIndex s1)(ix_sessionId index := None)\<rparr>
                   else s1, []))
          | Some r \<Rightarrow>
              (let (s1, out) = removePlayerFromRoom r (ix_playerId index) (ix_sessionId index) socket s
               in (s1, SocketLeave socket (code (roomObj s r)) # out @ [RoomLeft socket]))))"

definition roleSubmit ::
  "(string \<rightharpoonup> game) \<Rightarrow> string \<Rightarrow> string \<Rightarrow> string \<Rightarrow> state \<Rightarrow> state \<times> outbound list" where
  "roleSubmit gameMap socket code' roleId' s =
     (case rooms s code' of
        None \<Rightarrow> (s, [RoomError socket ''Room not found''])
      | Some r \<Rightarrow>
         (case socketIndex s socket of
            None \<Rightarrow> (s, [RoomError socket ''Room not found''])
          | Some index \<Rightarrow>
             if phase (roomObj s r) \<noteq> Roles then (s, [RoomError socket ''Roles are not open yet''])
             else (case map_of (players (roomObj s r)) (ix_playerId index) of
                     None \<Rightarrow> (s, [RoomError socket ''Player not found''])
                   | Some a \<Rightarrow>
                      if (case lookupGame gameMap (roomObj s r) of
                            None \<Rightarrow> True
                          | Some g \<Rightarrow> find (\<lambda>rl. role_id rl = roleId') (roles g) = None)
                      then (s, [RoomError socket ''Unknown role''])
                      else (let s1 = updPlayer a (\<lambda>p. p\<lparr>roleId := Some roleId',
                                                           hasSubmittedRole := True\<rparr>) s
                            in if allSubmitted s1 r
                               then (let s2 = updRoom r (\<lambda>rm. rm\<lparr>phase := Ready\<rparr>) s1
                                     in (s2, [emitRoomState s1 r, emitRoomState s2 r]))
                               else (s1, [emitRoomState s1 r])))))"

definition roomRevealConfirm ::
  "(string \<rightharpoonup> game) \<Rightarrow> string \<Rightarrow> string \<Rightarrow> state \<Rightarrow> state \<times> outbound list" where
  "roomRevealConfirm gameMap socket code' s =
     (case rooms s code' of
        None \<Rightarrow> (s, [RoomError socket ''Room not found''])
      | Some r \<Rightarrow>
         if \<not> isHost s socket r then (s, [RoomError socket ''Only the host can reveal roles''])
         else if phase (roomObj s r) \<noteq> Ready
         then (s, [RoomError socket ''Roles are not ready to reveal''])
         else if \<not> allSubmitted s r
         then (s, [RoomError socket ''Not everyone has confirmed a role''])
         else (let s1 = updRoom r (\<lambda>rm. rm\<lparr>phase := Reveal\<rparr>) s
               in (s1, emitRoomState s1 r #
                       map (\<lambda>member. RoomRevealMsg (socketId member)
                              (getRevealForPlayer gameMap (playerObj s1) (roomObj s1 r) member))
                           (playerValues (playerObj s1) (roomObj s1 r)))))"

definition disconnect :: "string \<Rightarrow> state \<Rightarrow> state \<times> outbound list" where
  "disconnect socket s =
     (case socketIndex s socket of
        None \<Rightarrow> (s, [])
      | Some index \<Rightarrow>
         (case rooms s (ix_code index) of
            None \<Rightarrow> (s\<lparr>socketIndex := (socketIndex s)(socket := None)\<rparr>, [])
          | Some r \<Rightarrow>
             (let s1 = s\<lparr>socketIndex := (socketIndex s)(socket := None)\<rparr>
              in case map_of (players (roomObj s1 r)) (ix_playerId index) of
                   None \<Rightarrow> (s1, [])
                 | Some a \<Rightarrow>
                    (let s2 = updPlayer a (\<lambda>p. p\<lparr>connected := False\<rparr>) s1;
                         s3 = (case disconnectTimer (playerObj s2 a) of
                                 None \<Rightarrow> s2
                               | Some t \<Rightarrow> clearTimeout t s2);
                         (t', s4) = setTimeout (r, a) s3;
                         s5 = updPlayer a (\<lambda>p. p\<lparr>disconnectTimer := Some t'\<rparr>) s4
                     in (s5, [emitRoomState s5 r])))))"

text \<open>A pending timer fires: it is no longer pending, and its callback runs.\<close>

definition timerFires :: "nat \<Rightarrow> state \<Rightarrow> (state \<times> outbound list) option" where
  "timerFires t s =
     (case timers s t of
        None \<Rightarrow> None
      | Some (r, a) \<Rightarrow> Some (graceCallback r a (clearTimeout t s)))"

section \<open>The server as a transition system\<close>

text \<open>
  The events, each with the connection it arrives on first: \<open>session:restore\<close> (session
  id), \<open>room:create\<close> (name, session id, the session UUID drawn, the random source of the
  code, the player UUID drawn), \<open>room:join\<close> (code, name, session id, the session UUID
  drawn, the player UUID drawn), \<open>room:selectGame\<close> (code, game id), \<open>room:start\<close>,
  \<open>room:reset\<close> (code), \<open>room:leave\<close>, \<open>role:submit\<close> (code, role id),
  \<open>room:revealConfirm\<close> (code), \<open>disconnect\<close>, and the firing of the timer with a given
  handle.
\<close>

datatype event =
    SessionRestore string "string option"
  | RoomCreate string "string option" "string option" string "nat \<Rightarrow> nat" string
  | RoomJoin string "string option" "string option" "string option" string string
  | RoomSelectGame string string string
  | RoomStart string string
  | RoomReset string string
  | RoomLeave string
  | RoleSubmit string string string
  | RoomRevealConfirm string string
  | Disconnect string
  | TimerFires nat

text \<open>
  The parameters of the transition system are the two string built-ins \<open>js\<close> and the game
  catalogue \<open>gameMap\<close>, read once at startup. An event carries what the environment
  decides: the connection, the payload, and the values drawn by \<open>crypto.randomUUID\<close> and
  \<open>Math.random\<close> while it is handled. Any event may arrive in any state, and the drawn ids
  are arbitrary strings, so the reachable states of the model include every state the
  server can be in.

  One event is handled to completion (Node runs one handler at a time). \<open>None\<close>: no next
  state (the handler does not return, or the timer is not pending).
\<close>

fun step :: "builtins \<Rightarrow> (string \<rightharpoonup> game) \<Rightarrow> event \<Rightarrow> state \<Rightarrow> (state \<times> outbound list) option" where
  "step js gameMap (SessionRestore socket sid) s = Some (sessionRestore gameMap socket sid s)"
| "step js gameMap (RoomCreate socket nm raw su draws pu) s = roomCreate socket nm raw su draws pu s"
| "step js gameMap (RoomJoin socket cd nm raw su pu) s = Some (roomJoin js socket cd nm raw su pu s)"
| "step js gameMap (RoomSelectGame socket cd gid) s = Some (roomSelectGame gameMap socket cd gid s)"
| "step js gameMap (RoomStart socket cd) s = Some (roomStart socket cd s)"
| "step js gameMap (RoomReset socket cd) s = Some (roomReset socket cd s)"
| "step js gameMap (RoomLeave socket) s = Some (roomLeave socket s)"
| "step js gameMap (RoleSubmit socket cd rid) s = Some (roleSubmit gameMap socket cd rid s)"
| "step js gameMap (RoomRevealConfirm socket cd) s = Some (roomRevealConfirm gameMap socket cd s)"
| "step js gameMap (Disconnect socket) s = Some (disconnect socket s)"
| "step js gameMap (TimerFires t) s = timerFires t s"

text \<open>The state at startup: empty tables, nothing allocated.\<close>

definition init :: state where
  "init = \<lparr>roomObj = (\<lambda>_. \<lparr>code = [], ownerId = [], gameId = None, phase = Lobby, players = []\<rparr>),
           playerObj = (\<lambda>_. createPlayer [] [] [] []),
           nextRoom = 0, nextPlayer = 0,
           rooms = Map.empty, socketIndex = Map.empty, sessionIndex = Map.empty,
           timers = Map.empty, nextTimer = 0\<rparr>"

text \<open>
  The state after a list of events, handled one after the other (the run stops at an event
  with no next state).
\<close>

fun run :: "builtins \<Rightarrow> (string \<rightharpoonup> game) \<Rightarrow> event list \<Rightarrow> state \<Rightarrow> state" where
  "run js gameMap [] s = s"
| "run js gameMap (e # es) s =
     (case step js gameMap e s of None \<Rightarrow> s | Some (s', out) \<Rightarrow> run js gameMap es s')"

inductive reachable :: "builtins \<Rightarrow> (string \<rightharpoonup> game) \<Rightarrow> state \<Rightarrow> bool" for js gameMap where
  reachable_init: "reachable js gameMap init"
| reachable_step: "reachable js gameMap s \<Longrightarrow> step js gameMap e s = Some (s', out) \<Longrightarrow> reachable js gameMap s'"

text \<open>The order of the phases, \<open>lobby < roles < ready < reveal\<close>.\<close>

fun phaseRank :: "phase \<Rightarrow> nat" where
  "phaseRank Lobby = 0"
| "phaseRank Roles = 1"
| "phaseRank Ready = 2"
| "phaseRank Reveal = 3"

text \<open>The events whose handlers assign \<open>room.phase\<close> a fixed value.\<close>

fun assignsPhase :: "event \<Rightarrow> bool" where
  "assignsPhase (RoomSelectGame socket cd gid) = True"
| "assignsPhase (RoomStart socket cd) = True"
| "assignsPhase (RoomReset socket cd) = True"
| "assignsPhase e = False"

section \<open>Invariants of the store\<close>

text \<open>
  A room object is well formed when every entry of its \<open>players\<close> Map holds an allocated
  player object under that player's own id, no key occurs twice, and, unless the Map is
  empty, its owner is a key of the Map.
\<close>

definition roomInv :: "state \<Rightarrow> room \<Rightarrow> bool" where
  "roomInv s rm =
     (list_all (\<lambda>(k, a). a < nextPlayer s \<and> player_id (playerObj s a) = k) (players rm) \<and>
      distinct (map fst (players rm)) \<and>
      (players rm = [] \<or> ownerId rm \<in> fst ` set (players rm)))"

text \<open>A live room is allocated, is filed under its own code, and has a player.\<close>

definition liveInv :: "state \<Rightarrow> bool" where
  "liveInv s =
     (\<forall>c r. rooms s c = Some r \<longrightarrow>
        r < nextRoom s \<and> code (roomObj s r) = c \<and> players (roomObj s r) \<noteq> [])"

text \<open>The closure of a pending timer holds an allocated room.\<close>

definition timersInv :: "state \<Rightarrow> bool" where
  "timersInv s = (\<forall>t r a. timers s t = Some (r, a) \<longrightarrow> r < nextRoom s)"

definition storeInv :: "state \<Rightarrow> bool" where
  "storeInv s = (liveInv s \<and> timersInv s \<and> (\<forall>r. r < nextRoom s \<longrightarrow> roomInv s (roomObj s r)))"

text \<open>
  The common end of both departure paths, once player \<open>pid\<close> is deleted from the Map of
  room \<open>r\<close>, as one function.
\<close>

definition afterRemoval :: "nat \<Rightarrow> string \<Rightarrow> state \<Rightarrow> state \<times> outbound list" where
  "afterRemoval r pid s =
     (case players (roomObj s r) of
        [] \<Rightarrow> (s\<lparr>rooms := (rooms s)(code (roomObj s r) := None)\<rparr>, [])
      | (k, nextOwner) # rest \<Rightarrow>
          (let s1 = (if ownerId (roomObj s r) = pid
                     then updRoom r (\<lambda>rm. rm\<lparr>ownerId := player_id (playerObj s nextOwner)\<rparr>) s
                     else s)
           in (s1, [emitRoomState s1 r])))"

text \<open>
  Between the deletion of player \<open>pid\<close> from room \<open>r\<close> and the end of the departure, room
  \<open>r\<close> may be empty and still live, and may lack its owner if the owner was \<open>pid\<close>.
\<close>

definition departing :: "nat \<Rightarrow> string \<Rightarrow> state \<Rightarrow> bool" where
  "departing r pid s =
     ((\<forall>c r'. rooms s c = Some r' \<longrightarrow>
         r' < nextRoom s \<and> code (roomObj s r') = c \<and> (r' = r \<or> players (roomObj s r') \<noteq> [])) \<and>
      timersInv s \<and>
      (\<forall>r'. r' < nextRoom s \<longrightarrow> r' = r \<or> roomInv s (roomObj s r')) \<and>
      list_all (\<lambda>(k, a). a < nextPlayer s \<and> player_id (playerObj s a) = k) (players (roomObj s r)) \<and>
      distinct (map fst (players (roomObj s r))) \<and>
      (ownerId (roomObj s r) = pid \<or> players (roomObj s r) = [] \<or>
       ownerId (roomObj s r) \<in> fst ` set (players (roomObj s r))))"

section \<open>An example game and run\<close>

text \<open>
  The game of the specification's example, with a rule for the assassin (who sees the evil
  party) and a role without a rule.
\<close>

definition demoGame :: game where
  "demoGame =
     \<lparr>game_id = ''avalon'', game_name = ''The Resistance: Avalon'',
      roles = [\<lparr>role_id = ''merlin'', role_name = ''Merlin'', partyId = Some ''good''\<rparr>,
               \<lparr>role_id = ''assassin'', role_name = ''Assassin'', partyId = Some ''evil''\<rparr>,
               \<lparr>role_id = ''percival'', role_name = ''Percival'', partyId = Some ''good''\<rparr>,
               \<lparr>role_id = ''servant'', role_name = ''Loyal Servant'', partyId = Some ''good''\<rparr>],
      revealRules =
        [\<lparr>entry_roleId = ''merlin'', scope = None, visibleRoleIds = [''assassin''],
          visiblePartyIds = [], includeSelf = False\<rparr>,
         \<lparr>entry_roleId = ''percival'', scope = None, visibleRoleIds = [],
          visiblePartyIds = [''evil''], includeSelf = False\<rparr>,
         \<lparr>entry_roleId = ''assassin'', scope = None, visibleRoleIds = [],
          visiblePartyIds = [''evil''], includeSelf = False\<rparr>]\<rparr>"

definition demoGameMap :: "string \<rightharpoonup> game" where
  "demoGameMap = [''avalon'' \<mapsto> demoGame]"





text \<open>
  The example run needs a concrete \<open>trim\<close> and \<open>toLowerCase\<close>. These two are the built-ins
  on ASCII text (the white space of \<open>trim\<close> below 128 is tab, line feed, vertical tab, form
  feed, carriage return and space; \<open>toLowerCase\<close> maps \<open>A\<close> to \<open>Z\<close> and leaves every other
  ASCII character); the names of the example are ASCII.
\<close>

definition isSpace :: "char \<Rightarrow> bool" where
  "isSpace c = (c \<in> set [CHR 0x09, CHR 0x0A, CHR 0x0B, CHR 0x0C, CHR 0x0D, CHR 0x20])"

definition trim :: "string \<Rightarrow> string" where
  "trim x = rev (dropWhile isSpace (rev (dropWhile isSpace x)))"

definition lowerChar :: "char \<Rightarrow> char" where
  "lowerChar c =
     (case map_of (zip ''ABCDEFGHIJKLMNOPQRSTUVWXYZ'' ''abcdefghijklmnopqrstuvwxyz'') c of
        None \<Rightarrow> c
      | Some d \<Rightarrow> d)"

definition toLowerCase :: "string \<Rightarrow> string" where
  "toLowerCase x = map lowerChar x"

definition asciiJs :: builtins where
  "asciiJs = \<lparr>js_trim = trim, js_toLowerCase = toLowerCase\<rparr>"

text \<open>Ann creates room 1234, Bob, Cy and Dee join, Ann selects the game and starts the round.\<close>

definition demoLobby :: "event list" where
  "demoLobby =
     [RoomCreate ''s1'' (Some ''Ann'') None ''u1'' (\<lambda>_. 234) ''p1'',
      RoomJoin ''s2'' (Some ''1234'') (Some ''Bob'') None ''u2'' ''p2'',
      RoomJoin ''s3'' (Some ''1234'') (Some ''Cy'') None ''u3'' ''p3'',
      RoomJoin ''s4'' (Some ''1234'') (Some ''Dee'') None ''u4'' ''p4'']"

definition demoRoles :: "event list" where
  "demoRoles = demoLobby @ [RoomSelectGame ''s1'' ''1234'' ''avalon'', RoomStart ''s1'' ''1234'']"

text \<open>Ann, Bob and Cy submit a role, then Dee does, and Ann reveals.\<close>

definition demoThree :: "event list" where
  "demoThree =
     demoRoles @ [RoleSubmit ''s1'' ''1234'' ''merlin'', RoleSubmit ''s2'' ''1234'' ''assassin'',
                  RoleSubmit ''s3'' ''1234'' ''percival'']"

definition demoReady :: "event list" where
  "demoReady = demoThree @ [RoleSubmit ''s4'' ''1234'' ''servant'']"

definition demoReveal :: "event list" where
  "demoReveal = demoReady @ [RoomRevealConfirm ''s1'' ''1234'']"

definition demoThreeState :: state where
  "demoThreeState = run asciiJs demoGameMap demoThree init"

definition demoState :: state where
  "demoState = run asciiJs demoGameMap demoReveal init"

text \<open>A room with its creator alone.\<close>

definition soloState :: state where
  "soloState = run asciiJs demoGameMap [RoomCreate ''s1'' (Some ''Ann'') None ''u1'' (\<lambda>_. 234) ''p1''] init"

section \<open>Evaluating the model\<close>

lemmas handler_defs =
  sessionRestore_def roomCreate_def roomJoin_def roomSelectGame_def roomStart_def roomReset_def
  roomLeave_def roleSubmit_def roomRevealConfirm_def disconnect_def timerFires_def
  removePlayerFromRoom_def graceCallback_def afterRemoval_def bindSession_def resetRoles_def
  emitRoomState_def serializeRoom_def playerValues_def isHost_def allSubmitted_def lookupGame_def
  newPlayer_def newRoom_def setTimeout_def clearTimeout_def createPlayer_def updPlayer_def
  updRoom_def

lemmas string_defs =
  truthy_def orElse_def normalizeName_def asciiJs_def trim_def toLowerCase_def lowerChar_def
  isSpace_def
  String_of.simps generateRoomCode.simps

lemmas demo_defs =
  demoGame_def demoGameMap_def demoLobby_def demoRoles_def demoThree_def demoReady_def
  demoReveal_def init_def

lemmas demo_state_defs = demoThreeState_def demoState_def soloState_def


text \<open>The states of the example run, computed once.\<close>

lemma demoThreeState_eq:
  "demoThreeState =
     \<lparr>roomObj = (roomObj init)
        (0 := \<lparr>code = ''1234'', ownerId = ''p1'', gameId = Some ''avalon'', phase = Roles,
                players = [(''p1'', 0), (''p2'', 1), (''p3'', 2), (''p4'', 3)]\<rparr>),
      playerObj = (playerObj init)
        (3 := createPlayer ''p4'' ''Dee'' ''s4'' ''u4'',
         0 := (createPlayer ''p1'' ''Ann'' ''s1'' ''u1'')
                \<lparr>roleId := Some ''merlin'', hasSubmittedRole := True\<rparr>,
         1 := (createPlayer ''p2'' ''Bob'' ''s2'' ''u2'')
                \<lparr>roleId := Some ''assassin'', hasSubmittedRole := True\<rparr>,
         2 := (createPlayer ''p3'' ''Cy'' ''s3'' ''u3'')
                \<lparr>roleId := Some ''percival'', hasSubmittedRole := True\<rparr>),
      nextRoom = 1, nextPlayer = 4,
      rooms = [''1234'' \<mapsto> 0],
      socketIndex =
        [''s1'' \<mapsto> \<lparr>ix_code = ''1234'', ix_playerId = ''p1'', ix_sessionId = ''u1''\<rparr>,
         ''s2'' \<mapsto> \<lparr>ix_code = ''1234'', ix_playerId = ''p2'', ix_sessionId = ''u2''\<rparr>,
         ''s3'' \<mapsto> \<lparr>ix_code = ''1234'', ix_playerId = ''p3'', ix_sessionId = ''u3''\<rparr>,
         ''s4'' \<mapsto> \<lparr>ix_code = ''1234'', ix_playerId = ''p4'', ix_sessionId = ''u4''\<rparr>],
      sessionIndex =
        [''u1'' \<mapsto> \<lparr>ss_code = ''1234'', ss_playerId = ''p1''\<rparr>,
         ''u2'' \<mapsto> \<lparr>ss_code = ''1234'', ss_playerId = ''p2''\<rparr>,
         ''u3'' \<mapsto> \<lparr>ss_code = ''1234'', ss_playerId = ''p3''\<rparr>,
         ''u4'' \<mapsto> \<lparr>ss_code = ''1234'', ss_playerId = ''p4''\<rparr>],
      timers = Map.empty, nextTimer = 0\<rparr>"
  by (simp add: demo_state_defs demo_defs handler_defs string_defs Let_def)
     (simp add: eval_nat_numeral)

lemma demoState_eq:
  "demoState =
     \<lparr>roomObj = (roomObj init)
        (0 := \<lparr>code = ''1234'', ownerId = ''p1'', gameId = Some ''avalon'', phase = Reveal,
                players = [(''p1'', 0), (''p2'', 1), (''p3'', 2), (''p4'', 3)]\<rparr>),
      playerObj = (playerObj init)
        (0 := (createPlayer ''p1'' ''Ann'' ''s1'' ''u1'')
                \<lparr>roleId := Some ''merlin'', hasSubmittedRole := True\<rparr>,
         1 := (createPlayer ''p2'' ''Bob'' ''s2'' ''u2'')
                \<lparr>roleId := Some ''assassin'', hasSubmittedRole := True\<rparr>,
         2 := (createPlayer ''p3'' ''Cy'' ''s3'' ''u3'')
                \<lparr>roleId := Some ''percival'', hasSubmittedRole := True\<rparr>,
         3 := (createPlayer ''p4'' ''Dee'' ''s4'' ''u4'')
                \<lparr>roleId := Some ''servant'', hasSubmittedRole := True\<rparr>),
      nextRoom = 1, nextPlayer = 4,
      rooms = [''1234'' \<mapsto> 0],
      socketIndex =
        [''s1'' \<mapsto> \<lparr>ix_code = ''1234'', ix_playerId = ''p1'', ix_sessionId = ''u1''\<rparr>,
         ''s2'' \<mapsto> \<lparr>ix_code = ''1234'', ix_playerId = ''p2'', ix_sessionId = ''u2''\<rparr>,
         ''s3'' \<mapsto> \<lparr>ix_code = ''1234'', ix_playerId = ''p3'', ix_sessionId = ''u3''\<rparr>,
         ''s4'' \<mapsto> \<lparr>ix_code = ''1234'', ix_playerId = ''p4'', ix_sessionId = ''u4''\<rparr>],
      sessionIndex =
        [''u1'' \<mapsto> \<lparr>ss_code = ''1234'', ss_playerId = ''p1''\<rparr>,
         ''u2'' \<mapsto> \<lparr>ss_code = ''1234'', ss_playerId = ''p2''\<rparr>,
         ''u3'' \<mapsto> \<lparr>ss_code = ''1234'', ss_playerId = ''p3''\<rparr>,
         ''u4'' \<mapsto> \<lparr>ss_code = ''1234'', ss_playerId = ''p4''\<rparr>],
      timers = Map.empty, nextTimer = 0\<rparr>"
  by (simp add: demo_state_defs demo_defs handler_defs string_defs Let_def)
     (simp add: eval_nat_numeral)

lemma soloState_eq:
  "soloState =
     \<lparr>roomObj = (roomObj init)
        (0 := \<lparr>code = ''1234'', ownerId = ''p1'', gameId = None, phase = Lobby,
                players = [(''p1'', 0)]\<rparr>),
      playerObj = (playerObj init)(0 := createPlayer ''p1'' ''Ann'' ''s1'' ''u1''),
      nextRoom = 1, nextPlayer = 1,
      rooms = [''1234'' \<mapsto> 0],
      socketIndex = [''s1'' \<mapsto> \<lparr>ix_code = ''1234'', ix_playerId = ''p1'', ix_sessionId = ''u1''\<rparr>],
      sessionIndex = [''u1'' \<mapsto> \<lparr>ss_code = ''1234'', ss_playerId = ''p1''\<rparr>],
      timers = Map.empty, nextTimer = 0\<rparr>"
  by (simp add: demo_state_defs demo_defs handler_defs string_defs Let_def)

lemma demoState_room:
  "roomObj demoState 0 =
     \<lparr>code = ''1234'', ownerId = ''p1'', gameId = Some ''avalon'', phase = Reveal,
      players = [(''p1'', 0), (''p2'', 1), (''p3'', 2), (''p4'', 3)]\<rparr>"
  by (simp add: demoState_eq)

lemma demoState_players:
  "playerObj demoState 0 = (createPlayer ''p1'' ''Ann'' ''s1'' ''u1'')
       \<lparr>roleId := Some ''merlin'', hasSubmittedRole := True\<rparr>"
  "playerObj demoState (Suc 0) = (createPlayer ''p2'' ''Bob'' ''s2'' ''u2'')
       \<lparr>roleId := Some ''assassin'', hasSubmittedRole := True\<rparr>"
  "playerObj demoState 2 = (createPlayer ''p3'' ''Cy'' ''s3'' ''u3'')
       \<lparr>roleId := Some ''percival'', hasSubmittedRole := True\<rparr>"
  "playerObj demoState 3 = (createPlayer ''p4'' ''Dee'' ''s4'' ''u4'')
       \<lparr>roleId := Some ''servant'', hasSubmittedRole := True\<rparr>"
  by (simp_all add: demoState_eq)

section \<open>Room code generation\<close>

lemma generateRoomCode_free:
  assumes "generateRoomCode rms draws i = Some c"
  shows "rms c = None"
proof (rule generateRoomCode.raw_induct[where P = "\<lambda>rms draws i c. rms c = None", OF _ assms])
  fix gen :: "(string \<rightharpoonup> nat) \<Rightarrow> (nat \<Rightarrow> nat) \<Rightarrow> nat \<Rightarrow> string option" and rms draws i c
  assume IH: "\<And>rms draws i c. gen rms draws i = Some c \<Longrightarrow> rms c = None"
    and body: "(let code' = String_of (1000 + draws i)
                in if rms code' \<noteq> None then gen rms draws (Suc i) else Some code') = Some c"
  show "rms c = None"
  proof (cases "rms (String_of (1000 + draws i)) = None")
    case True
    with body show ?thesis by (simp add: Let_def)
  next
    case False
    with body have "gen rms draws (Suc i) = Some c" by (simp add: Let_def)
    then show ?thesis by (rule IH)
  qed
qed

lemma generateRoomCode_returns:
  "rms (String_of (1000 + draws (i + k))) = None \<Longrightarrow> generateRoomCode rms draws i \<noteq> None"
proof (induction k arbitrary: i)
  case 0
  then show ?case by (subst generateRoomCode.simps) (simp add: Let_def)
next
  case (Suc k)
  from Suc.prems have "rms (String_of (1000 + draws (Suc i + k))) = None" by simp
  then have "generateRoomCode rms draws (Suc i) \<noteq> None" by (rule Suc.IH)
  then show ?case by (subst generateRoomCode.simps) (simp add: Let_def)
qed

text \<open>
  Claim C9. Whatever the sequence of random draws, a code that \<open>generateRoomCode\<close> returns
  is not the code of a live room, and \<open>room:create\<close> files the new room under a code that
  was free. The loop returns as soon as a draw is free: if some draw from the \<open>i\<close>-th on
  is free, there is a result.
\<close>

theorem generateRoomCode_unique:
  "(generateRoomCode rms draws i = Some c \<longrightarrow> rms c = None) \<and>
   (rms (String_of (1000 + draws (i + k))) = None \<longrightarrow> generateRoomCode rms draws i \<noteq> None) \<and>
   (truthy nm \<and> roomCreate socket nm raw su draws pu s = Some (s', out) \<longrightarrow>
      (\<exists>c. rooms s c = None \<and> rooms s' = (rooms s)(c \<mapsto> nextRoom s)))"
proof (intro conjI impI)
  assume "generateRoomCode rms draws i = Some c"
  then show "rms c = None" by (rule generateRoomCode_free)
next
  assume "rms (String_of (1000 + draws (i + k))) = None"
  then show "generateRoomCode rms draws i \<noteq> None" by (rule generateRoomCode_returns)
next
  assume a: "truthy nm \<and> roomCreate socket nm raw su draws pu s = Some (s', out)"
  then obtain c where c: "generateRoomCode (rooms s) draws 0 = Some c"
    by (auto simp: roomCreate_def Let_def split: option.splits)
  from c have "rooms s c = None" by (rule generateRoomCode_free)
  moreover from a c have "rooms s' = (rooms s)(c \<mapsto> nextRoom s)"
    by (auto simp: roomCreate_def Let_def newPlayer_def newRoom_def bindSession_def updPlayer_def
        clearTimeout_def split: option.splits)
  ultimately show "\<exists>c. rooms s c = None \<and> rooms s' = (rooms s)(c \<mapsto> nextRoom s)" by blast
qed

text \<open>
  With room 1234 live, the draws 1234, 1234, 5678, ... give the code 5678, and a second
  room created from these draws is filed under 5678.
\<close>

theorem generateRoomCode_unique_witness:
  "rooms demoState ''5678'' = None \<and>
   generateRoomCode (rooms demoState) (\<lambda>i. if i < 2 then 234 else 4678) 0 = Some ''5678'' \<and>
   rooms (run asciiJs demoGameMap
            [RoomCreate ''s5'' (Some ''Eve'') None ''u5'' (\<lambda>i. if i < 2 then 234 else 4678) ''p5'']
            demoState) ''5678'' = Some 1"
proof -
  let ?draws = "\<lambda>i::nat. if i < 2 then 234 else (4678::nat)"
  have g: "generateRoomCode (rooms demoState) ?draws 0 = Some ''5678''"
    by (simp add: demoState_eq string_defs Let_def)
  have r: "rooms (run asciiJs demoGameMap [RoomCreate ''s5'' (Some ''Eve'') None ''u5'' ?draws ''p5'']
             demoState) ''5678'' = Some 1"
    by (simp add: demoState_eq handler_defs string_defs Let_def)
  from generateRoomCode_unique[where rms = "rooms demoState" and draws = ?draws and i = 0
      and c = "''5678''"] g
  have "rooms demoState ''5678'' = None" by blast
  with g r show ?thesis by simp
qed

section \<open>The room state broadcast\<close>

text \<open>
  Claim C6. The payload of \<open>room:state\<close> does not depend on the players' \<open>roleId\<close>: whatever
  values \<open>f\<close> the role fields are replaced by, \<open>serializeRoom\<close> returns the same payload. The
  payload lists, for each entry of the room's player Map in its order, the player's
  \<open>id\<close>, \<open>name\<close> and \<open>hasSubmittedRole\<close>, and has no other player field.
\<close>

theorem serializeRoom_hides_roleId:
  "serializeRoom (\<lambda>a. (objs a)\<lparr>roleId := f a\<rparr>) rm = serializeRoom objs rm \<and>
   st_players (serializeRoom objs rm) =
     map (\<lambda>(k, a). \<lparr>rp_id = player_id (objs a), rp_name = player_name (objs a),
                     rp_hasSubmittedRole = hasSubmittedRole (objs a)\<rparr>) (players rm)"
  by (simp add: serializeRoom_def playerValues_def case_prod_beta)

text \<open>The roles of the example run replaced by no role at all: the same broadcast.\<close>

theorem serializeRoom_hides_roleId_witness:
  "serializeRoom (\<lambda>a. (playerObj demoState a)\<lparr>roleId := None\<rparr>) (roomObj demoState 0) =
   serializeRoom (playerObj demoState) (roomObj demoState 0) \<and>
   st_players (serializeRoom (playerObj demoState) (roomObj demoState 0)) =
     [\<lparr>rp_id = ''p1'', rp_name = ''Ann'', rp_hasSubmittedRole = True\<rparr>,
      \<lparr>rp_id = ''p2'', rp_name = ''Bob'', rp_hasSubmittedRole = True\<rparr>,
      \<lparr>rp_id = ''p3'', rp_name = ''Cy'', rp_hasSubmittedRole = True\<rparr>,
      \<lparr>rp_id = ''p4'', rp_name = ''Dee'', rp_hasSubmittedRole = True\<rparr>]"
  using serializeRoom_hides_roleId[where objs = "playerObj demoState" and f = "\<lambda>a. None"
      and rm = "roomObj demoState 0"]
  by (simp add: demoState_room demoState_players createPlayer_def)


section \<open>Visibility resolution\<close>














section \<open>Role submission\<close>

text \<open>
  Claim C5. A \<open>role:submit\<close> that passes every check (the room and the sender's index
  entry exist, the phase is \<open>roles\<close>, the sender is a player of the room, the role is a role
  of the room's game) records the role on the sender's player object and changes no other
  player and not the player Map; afterwards the phase is \<open>ready\<close> if every player of the
  room has \<open>hasSubmittedRole\<close>, and is still \<open>roles\<close> otherwise.
\<close>

theorem submit_advances_when_all_submitted:
  assumes "rooms s cd = Some r"
    and "socketIndex s socket = Some index"
    and "phase (roomObj s r) = Roles"
    and "map_of (players (roomObj s r)) (ix_playerId index) = Some a"
    and "lookupGame gameMap (roomObj s r) = Some g"
    and "find (\<lambda>rl. role_id rl = rid) (roles g) \<noteq> None"
    and "roleSubmit gameMap socket cd rid s = (s', out)"
  shows "playerObj s' = (playerObj s)(a := (playerObj s a)\<lparr>roleId := Some rid, hasSubmittedRole := True\<rparr>)
       \<and> players (roomObj s' r) = players (roomObj s r)
       \<and> phase (roomObj s' r) =
           (if list_all (\<lambda>(k, b). hasSubmittedRole (playerObj s' b)) (players (roomObj s' r))
            then Ready else Roles)"
proof -
  let ?s1 = "updPlayer a (\<lambda>p. p\<lparr>roleId := Some rid, hasSubmittedRole := True\<rparr>) s"
  have res: "(s', out) =
      (if allSubmitted ?s1 r
       then (updRoom r (\<lambda>rm. rm\<lparr>phase := Ready\<rparr>) ?s1,
             [emitRoomState ?s1 r, emitRoomState (updRoom r (\<lambda>rm. rm\<lparr>phase := Ready\<rparr>) ?s1) r])
       else (?s1, [emitRoomState ?s1 r]))"
    using assms by (auto simp: roleSubmit_def Let_def)
  have every: "allSubmitted ?s1 r =
      list_all (\<lambda>(k, b). hasSubmittedRole (playerObj ?s1 b)) (players (roomObj ?s1 r))"
    by (simp add: allSubmitted_def playerValues_def list_all_iff case_prod_beta)
  show ?thesis
  proof (cases "allSubmitted ?s1 r")
    case True
    with res have s': "s' = updRoom r (\<lambda>rm. rm\<lparr>phase := Ready\<rparr>) ?s1" by simp
    from True every show ?thesis by (simp add: s' updRoom_def updPlayer_def)
  next
    case False
    with res have s': "s' = ?s1" by simp
    from False every assms(3) show ?thesis by (simp add: s' updPlayer_def)
  qed
qed

text \<open>
  With Ann, Bob and Cy submitted, Dee's submission is the fourth of four and the phase
  becomes \<open>ready\<close>; a repeated submission of Ann's leaves Dee unsubmitted and the phase at
  \<open>roles\<close>.
\<close>

theorem submit_advances_when_all_submitted_witness:
  "phase (roomObj (fst (roleSubmit demoGameMap ''s4'' ''1234'' ''servant'' demoThreeState)) 0) = Ready \<and>
   phase (roomObj (fst (roleSubmit demoGameMap ''s1'' ''1234'' ''merlin'' demoThreeState)) 0) = Roles"
proof -
  let ?dee = "\<lparr>ix_code = ''1234'', ix_playerId = ''p4'', ix_sessionId = ''u4''\<rparr>"
  let ?ann = "\<lparr>ix_code = ''1234'', ix_playerId = ''p1'', ix_sessionId = ''u1''\<rparr>"
  have h1: "rooms demoThreeState ''1234'' = Some 0" by (simp add: demoThreeState_eq)
  have h2: "socketIndex demoThreeState ''s4'' = Some ?dee" "socketIndex demoThreeState ''s1'' = Some ?ann"
    by (simp_all add: demoThreeState_eq)
  have h3: "phase (roomObj demoThreeState 0) = Roles" by (simp add: demoThreeState_eq)
  have h4: "map_of (players (roomObj demoThreeState 0)) (ix_playerId ?dee) = Some 3"
    "map_of (players (roomObj demoThreeState 0)) (ix_playerId ?ann) = Some 0"
    by (simp_all add: demoThreeState_eq)
  have h5: "lookupGame demoGameMap (roomObj demoThreeState 0) = Some demoGame"
    by (simp add: demoThreeState_eq lookupGame_def demoGameMap_def)
  have h6: "find (\<lambda>rl. role_id rl = ''servant'') (roles demoGame) \<noteq> None"
    "find (\<lambda>rl. role_id rl = ''merlin'') (roles demoGame) \<noteq> None"
    by (simp_all add: demoGame_def)
  note dee = submit_advances_when_all_submitted[OF h1 h2(1) h3 h4(1) h5 h6(1) surjective_pairing]
  note ann = submit_advances_when_all_submitted[OF h1 h2(2) h3 h4(2) h5 h6(2) surjective_pairing]
  from dee have "phase (roomObj (fst (roleSubmit demoGameMap ''s4'' ''1234'' ''servant'' demoThreeState)) 0) = Ready"
    by (simp add: demoThreeState_eq createPlayer_def init_def)
  moreover from ann have "phase (roomObj (fst (roleSubmit demoGameMap ''s1'' ''1234'' ''merlin'' demoThreeState)) 0) = Roles"
    by (simp add: demoThreeState_eq createPlayer_def init_def)
  ultimately show ?thesis by simp
qed

section \<open>Joining and creating rooms\<close>

text \<open>
  Claim C7, as the code has it. A \<open>room:join\<close> that names an existing room whose phase is
  not \<open>lobby\<close> is always rejected with one error to the sender and the state unchanged.
  The handler checks in this order: code and name present, room found, name free, phase
  \<open>lobby\<close>. So the error is "Game already started" when the name is present and its
  \<open>normalizeName\<close> differs from that of every member's name; a present name with the
  \<open>normalizeName\<close> of a member's gives "That name is already taken in this room", and an
  absent or empty name "Code and name are required". The statement holds for every \<open>trim\<close>
  and \<open>toLowerCase\<close> (the parameter \<open>js\<close>), those of the JavaScript runtime on arbitrary
  Unicode names among them.
\<close>

theorem join_rejected_outside_lobby:
  assumes "rooms s cd = Some r" and "phase (roomObj s r) \<noteq> Lobby"
  shows "roomJoin js socket (Some cd) nm raw su pu s =
           (s, [RoomError socket
                  (if cd = [] \<or> \<not> truthy nm then ''Code and name are required''
                   else if list_ex (\<lambda>p. normalizeName js (player_name p) = normalizeName js (orElse nm []))
                             (playerValues (playerObj s) (roomObj s r))
                   then ''That name is already taken in this room''
                   else ''Game already started'')])"
  using assms by (simp add: roomJoin_def Let_def truthy_def orElse_def)

text \<open>Eve tries to join the example room after the reveal (ASCII names, ASCII built-ins).\<close>

theorem join_rejected_outside_lobby_witness:
  "roomJoin asciiJs ''s5'' (Some ''1234'') (Some ''Eve'') None ''u5'' ''p5'' demoState =
     (demoState, [RoomError ''s5'' ''Game already started''])"
proof -
  have h1: "rooms demoState ''1234'' = Some 0" by (simp add: demoState_eq)
  have h2: "phase (roomObj demoState 0) \<noteq> Lobby" by (simp add: demoState_eq)
  show ?thesis
    unfolding join_rejected_outside_lobby[OF h1 h2]
    by (simp add: demoState_eq playerValues_def createPlayer_def string_defs)
qed

text \<open>
  Claim C7 as stated fails: the example room is in phase \<open>reveal\<close>, and a join under the
  name \<open>bob\<close> (Bob is a member) is rejected with the name error, not with
  "Game already started".
\<close>

theorem join_name_taken_outside_lobby:
  "rooms demoState ''1234'' = Some 0 \<and> phase (roomObj demoState 0) = Reveal \<and>
   roomJoin asciiJs ''s5'' (Some ''1234'') (Some ''bob '') None ''u5'' ''p5'' demoState =
     (demoState, [RoomError ''s5'' ''That name is already taken in this room''])"
  by (simp add: roomJoin_def Let_def demoState_eq playerValues_def createPlayer_def string_defs)

text \<open>
  Claim C8, as the code has it. \<open>room:create\<close> fails, with "Name is required" and the
  state unchanged, exactly when the name is absent or the empty string. Any other name
  creates a room as soon as the code generation returns a code: the room is filed under
  that code, in phase \<open>lobby\<close>, with the creator as owner and only player, and the
  creator's name is stored as it was sent. The handler neither trims the name nor looks
  at its length.
\<close>

theorem create_requires_nonempty_name:
  "(\<not> truthy nm \<longrightarrow>
      roomCreate socket nm raw su draws pu s = Some (s, [RoomError socket ''Name is required''])) \<and>
   (truthy nm \<and> generateRoomCode (rooms s) draws 0 = Some c \<longrightarrow>
      (\<exists>s' out. roomCreate socket nm raw su draws pu s = Some (s', out) \<and>
         rooms s' = (rooms s)(c \<mapsto> nextRoom s) \<and>
         roomObj s' (nextRoom s) =
           \<lparr>code = c, ownerId = pu, gameId = None, phase = Lobby, players = [(pu, nextPlayer s)]\<rparr> \<and>
         player_name (playerObj s' (nextPlayer s)) = orElse nm [] \<and>
         out = [SocketJoin socket c, RoomJoined socket pu True c (orElse raw su),
                emitRoomState s' (nextRoom s)]))"
  by (auto simp: roomCreate_def Let_def newPlayer_def newRoom_def bindSession_def updPlayer_def
        clearTimeout_def createPlayer_def emitRoomState_def)

text \<open>At startup: a create without a name fails, a create by Ann makes room 1234.\<close>

theorem create_requires_nonempty_name_witness:
  "roomCreate ''s1'' None None ''u1'' (\<lambda>_. 234) ''p1'' init =
     Some (init, [RoomError ''s1'' ''Name is required'']) \<and>
   map_option (\<lambda>(s', out). rooms s' ''1234'') (roomCreate ''s1'' (Some ''Ann'') None ''u1'' (\<lambda>_. 234) ''p1'' init)
     = Some (Some 0)"
proof -
  have g: "generateRoomCode (rooms init) (\<lambda>_. 234) 0 = Some ''1234''"
    by (simp add: init_def string_defs Let_def)
  have t: "\<not> truthy None" "truthy (Some ''Ann'')" by (simp_all add: truthy_def)
  from create_requires_nonempty_name[where nm = None and socket = "''s1''" and raw = None
      and su = "''u1''" and draws = "\<lambda>_. 234" and pu = "''p1''" and s = init] t(1)
  have 1: "roomCreate ''s1'' None None ''u1'' (\<lambda>_. 234) ''p1'' init =
             Some (init, [RoomError ''s1'' ''Name is required''])" by blast
  from create_requires_nonempty_name[where nm = "Some ''Ann''" and socket = "''s1''" and raw = None
      and su = "''u1''" and draws = "\<lambda>_. 234" and pu = "''p1''" and s = init and c = "''1234''"] t(2) g
  obtain s' out where "roomCreate ''s1'' (Some ''Ann'') None ''u1'' (\<lambda>_. 234) ''p1'' init = Some (s', out)"
    "rooms s' = (rooms init)(''1234'' \<mapsto> nextRoom init)" by blast
  then have 2: "map_option (\<lambda>(s', out). rooms s' ''1234'')
        (roomCreate ''s1'' (Some ''Ann'') None ''u1'' (\<lambda>_. 234) ''p1'' init) = Some (Some 0)"
    by (simp add: init_def)
  from 1 2 show ?thesis by simp
qed

text \<open>
  Claim C8 as stated fails: a name of eleven characters and a name of three spaces (empty
  after trimming) both create a room, and the room state broadcast carries the name.
\<close>

theorem create_accepts_long_and_blank_names:
  "length (trim ''abcdefghijk'') = 11 \<and>
   map_option snd (roomCreate ''s1'' (Some ''abcdefghijk'') None ''u1'' (\<lambda>_. 234) ''p1'' init) =
     Some [SocketJoin ''s1'' ''1234'', RoomJoined ''s1'' ''p1'' True ''1234'' ''u1'',
           RoomStateMsg ''1234''
             \<lparr>st_code = ''1234'', st_ownerId = ''p1'', st_gameId = None, st_phase = Lobby,
              st_players = [\<lparr>rp_id = ''p1'', rp_name = ''abcdefghijk'', rp_hasSubmittedRole = False\<rparr>]\<rparr>] \<and>
   trim ''   '' = [] \<and>
   map_option snd (roomCreate ''s1'' (Some ''   '') None ''u1'' (\<lambda>_. 234) ''p1'' init) =
     Some [SocketJoin ''s1'' ''1234'', RoomJoined ''s1'' ''p1'' True ''1234'' ''u1'',
           RoomStateMsg ''1234''
             \<lparr>st_code = ''1234'', st_ownerId = ''p1'', st_gameId = None, st_phase = Lobby,
              st_players = [\<lparr>rp_id = ''p1'', rp_name = ''   '', rp_hasSubmittedRole = False\<rparr>]\<rparr>]"
  by (simp add: init_def handler_defs string_defs Let_def)

section \<open>The two departure paths end alike\<close>

lemma afterRemoval_unfold:
  "afterRemoval r pid s =
     (if players (roomObj s r) = []
      then (s\<lparr>rooms := (rooms s)(code (roomObj s r) := None)\<rparr>, [])
      else (let s1 = (if ownerId (roomObj s r) = pid
                      then updRoom r (\<lambda>rm. rm\<lparr>ownerId :=
                             player_id (playerObj s (snd (hd (players (roomObj s r)))))\<rparr>) s
                      else s)
            in (s1, [emitRoomState s1 r])))"
  by (cases "players (roomObj s r)") (auto simp: afterRemoval_def)

lemma removePlayerFromRoom_tail:
  "removePlayerFromRoom r pid sessionId' socket s =
     (case map_of (players (roomObj s r)) pid of
        None \<Rightarrow> (s, [])
      | Some a \<Rightarrow>
          (let s1 = (case disconnectTimer (playerObj s a) of
                       None \<Rightarrow> s
                     | Some t \<Rightarrow> updPlayer a (\<lambda>p. p\<lparr>disconnectTimer := None\<rparr>) (clearTimeout t s));
               s2 = updRoom r (\<lambda>rm. rm\<lparr>players := AList.delete pid (players rm)\<rparr>) s1;
               s3 = (if sessionId' \<noteq> [] then s2\<lparr>sessionIndex := (sessionIndex s2)(sessionId' := None)\<rparr>
                     else s2);
               s4 = (if socket \<noteq> [] then s3\<lparr>socketIndex := (socketIndex s3)(socket := None)\<rparr>
                     else s3)
           in afterRemoval r pid s4))"
  unfolding removePlayerFromRoom_def afterRemoval_unfold ..

lemma graceCallback_tail:
  "graceCallback r a s =
     (if connected (playerObj s a) then (s, [])
      else (let pid = player_id (playerObj s a);
                s1 = updRoom r (\<lambda>rm. rm\<lparr>players := AList.delete pid (players rm)\<rparr>) s;
                s2 = s1\<lparr>sessionIndex := (sessionIndex s1)(sessionId (playerObj s1 a) := None)\<rparr>
            in afterRemoval r pid s2))"
  unfolding graceCallback_def afterRemoval_unfold
  by (simp add: Let_def updRoom_def)

section \<open>What the operations leave unchanged\<close>

lemma updPlayer_frame:
  "roomObj (updPlayer a f s) = roomObj s"
  "nextRoom (updPlayer a f s) = nextRoom s"
  "nextPlayer (updPlayer a f s) = nextPlayer s"
  "rooms (updPlayer a f s) = rooms s"
  "playerObj (updPlayer a f s) = (playerObj s)(a := f (playerObj s a))"
  by (simp_all add: updPlayer_def)

lemma updRoom_frame:
  "roomObj (updRoom r f s) = (roomObj s)(r := f (roomObj s r))"
  "nextRoom (updRoom r f s) = nextRoom s"
  "nextPlayer (updRoom r f s) = nextPlayer s"
  "rooms (updRoom r f s) = rooms s"
  "playerObj (updRoom r f s) = playerObj s"
  by (simp_all add: updRoom_def)

lemma clearTimeout_frame:
  "roomObj (clearTimeout t s) = roomObj s"
  "nextRoom (clearTimeout t s) = nextRoom s"
  "nextPlayer (clearTimeout t s) = nextPlayer s"
  "rooms (clearTimeout t s) = rooms s"
  "playerObj (clearTimeout t s) = playerObj s"
  by (simp_all add: clearTimeout_def)

lemma bindSession_frame:
  "roomObj (bindSession sid cd a socket s) = roomObj s"
  "nextRoom (bindSession sid cd a socket s) = nextRoom s"
  "nextPlayer (bindSession sid cd a socket s) = nextPlayer s"
  "rooms (bindSession sid cd a socket s) = rooms s"
  by (simp_all add: bindSession_def Let_def updPlayer_frame clearTimeout_frame split: option.splits)

lemma resetRoles_fold_frame:
  "roomObj (fold (\<lambda>(k, a). updPlayer a g) xs s) = roomObj s \<and>
   nextRoom (fold (\<lambda>(k, a). updPlayer a g) xs s) = nextRoom s \<and>
   nextPlayer (fold (\<lambda>(k, a). updPlayer a g) xs s) = nextPlayer s \<and>
   rooms (fold (\<lambda>(k, a). updPlayer a g) xs s) = rooms s"
  by (induction xs arbitrary: s) (auto simp: updPlayer_frame)

lemma resetRoles_frame:
  "roomObj (resetRoles r s) = roomObj s"
  "nextRoom (resetRoles r s) = nextRoom s"
  "nextPlayer (resetRoles r s) = nextPlayer s"
  "rooms (resetRoles r s) = rooms s"
  by (simp_all add: resetRoles_def resetRoles_fold_frame)

lemma afterRemoval_phase:
  "phase (roomObj (fst (afterRemoval r pid s)) r') = phase (roomObj s r')"
  by (simp add: afterRemoval_def Let_def updRoom_frame split: list.splits)

lemma removePlayerFromRoom_phase:
  "phase (roomObj (fst (removePlayerFromRoom r pid sid socket s)) r') = phase (roomObj s r')"
  by (simp add: removePlayerFromRoom_tail Let_def afterRemoval_phase updRoom_frame updPlayer_frame
      clearTimeout_frame split: option.splits)

lemma graceCallback_phase:
  "phase (roomObj (fst (graceCallback r a s)) r') = phase (roomObj s r')"
  by (simp add: graceCallback_tail Let_def afterRemoval_phase updRoom_frame)

lemma sessionRestore_phase:
  "phase (roomObj (fst (sessionRestore gameMap socket sid s)) r') = phase (roomObj s r')"
  by (simp add: sessionRestore_def Let_def bindSession_frame split: option.splits)

lemma roomCreate_phase:
  "roomCreate socket nm raw su draws pu s = Some (s', out) \<Longrightarrow> r' < nextRoom s \<Longrightarrow>
   phase (roomObj s' r') = phase (roomObj s r')"
  by (auto simp: roomCreate_def Let_def newPlayer_def newRoom_def bindSession_frame
      split: option.splits if_splits)

lemma roomJoin_phase:
  "phase (roomObj (fst (roomJoin js socket cd nm raw su pu s)) r') = phase (roomObj s r')"
  by (simp add: roomJoin_def Let_def newPlayer_def bindSession_frame updRoom_frame split: option.splits)

lemma roomLeave_phase:
  "phase (roomObj (fst (roomLeave socket s)) r') = phase (roomObj s r')"
  by (simp add: roomLeave_def Let_def removePlayerFromRoom_phase split: option.splits prod.splits)
     (metis fst_conv removePlayerFromRoom_phase)

lemma roleSubmit_phase:
  "phaseRank (phase (roomObj s r')) \<le> phaseRank (phase (roomObj (fst (roleSubmit gameMap socket cd rid s)) r'))"
  by (simp add: roleSubmit_def Let_def updRoom_frame updPlayer_frame split: option.splits)

lemma roomRevealConfirm_phase:
  "phaseRank (phase (roomObj s r')) \<le> phaseRank (phase (roomObj (fst (roomRevealConfirm gameMap socket cd s)) r'))"
  by (simp add: roomRevealConfirm_def Let_def updRoom_frame split: option.splits)

lemma disconnect_phase:
  "phase (roomObj (fst (disconnect socket s)) r') = phase (roomObj s r')"
  by (simp add: disconnect_def Let_def setTimeout_def updPlayer_frame clearTimeout_frame
      split: option.splits prod.splits)

lemma timerFires_phase:
  "timerFires t s = Some (s', out) \<Longrightarrow> phase (roomObj s' r') = phase (roomObj s r')"
  by (auto simp: timerFires_def split: option.splits prod.splits)
     (metis fst_conv graceCallback_phase clearTimeout_frame(1))

section \<open>Phase transitions\<close>

text \<open>
  Claim C2, as the code has it. For every event but \<open>room:selectGame\<close>, \<open>room:start\<close> and
  \<open>room:reset\<close> (session restore, create, join, leave, role submission, reveal
  confirmation, disconnect, expiry of a disconnect timer) and every room object allocated
  so far, the phase after the event is not before the phase in the order
  \<open>lobby < roles < ready < reveal\<close>. The three other handlers have no check of the phase:
  for the host of a room, \<open>room:selectGame\<close> with a known game sets the phase to \<open>lobby\<close>,
  \<open>room:start\<close> with a game selected sets it to \<open>roles\<close>, and \<open>room:reset\<close> sets it to
  \<open>lobby\<close>, whatever the phase was.
\<close>

theorem phase_moves_forward:
  "(\<not> assignsPhase e \<and> step js gameMap e s = Some (s', out) \<and> r < nextRoom s \<longrightarrow>
      phaseRank (phase (roomObj s r)) \<le> phaseRank (phase (roomObj s' r))) \<and>
   (rooms s cd = Some r \<and> isHost s socket r \<and> gameMap gid \<noteq> None \<longrightarrow>
      phase (roomObj (fst (roomSelectGame gameMap socket cd gid s)) r) = Lobby) \<and>
   (rooms s cd = Some r \<and> isHost s socket r \<and> truthy (gameId (roomObj s r)) \<longrightarrow>
      phase (roomObj (fst (roomStart socket cd s)) r) = Roles) \<and>
   (rooms s cd = Some r \<and> isHost s socket r \<longrightarrow>
      phase (roomObj (fst (roomReset socket cd s)) r) = Lobby)"
proof (intro conjI impI)
  assume a: "\<not> assignsPhase e \<and> step js gameMap e s = Some (s', out) \<and> r < nextRoom s"
  then have st: "step js gameMap e s = Some (s', out)" and r: "r < nextRoom s" and na: "\<not> assignsPhase e"
    by simp_all
  show "phaseRank (phase (roomObj s r)) \<le> phaseRank (phase (roomObj s' r))"
  proof (cases e)
    case (SessionRestore socket sid)
    with st have "s' = fst (sessionRestore gameMap socket sid s)" by simp
    then show ?thesis by (simp add: sessionRestore_phase)
  next
    case (RoomCreate socket nm raw su draws pu)
    with st have "roomCreate socket nm raw su draws pu s = Some (s', out)" by simp
    from roomCreate_phase[OF this r] show ?thesis by simp
  next
    case (RoomJoin socket cd nm raw su pu)
    with st have "s' = fst (roomJoin js socket cd nm raw su pu s)" by simp
    then show ?thesis by (simp add: roomJoin_phase)
  next
    case (RoomSelectGame socket cd gid)
    with na show ?thesis by simp
  next
    case (RoomStart socket cd)
    with na show ?thesis by simp
  next
    case (RoomReset socket cd)
    with na show ?thesis by simp
  next
    case (RoomLeave socket)
    with st have "s' = fst (roomLeave socket s)" by simp
    then show ?thesis by (simp add: roomLeave_phase)
  next
    case (RoleSubmit socket cd rid)
    with st have "s' = fst (roleSubmit gameMap socket cd rid s)" by simp
    then show ?thesis by (simp add: roleSubmit_phase)
  next
    case (RoomRevealConfirm socket cd)
    with st have "s' = fst (roomRevealConfirm gameMap socket cd s)" by simp
    then show ?thesis by (simp add: roomRevealConfirm_phase)
  next
    case (Disconnect socket)
    with st have "s' = fst (disconnect socket s)" by simp
    then show ?thesis by (simp add: disconnect_phase)
  next
    case (TimerFires t)
    with st have "timerFires t s = Some (s', out)" by simp
    from timerFires_phase[OF this] show ?thesis by simp
  qed
next
  assume "rooms s cd = Some r \<and> isHost s socket r \<and> gameMap gid \<noteq> None"
  then show "phase (roomObj (fst (roomSelectGame gameMap socket cd gid s)) r) = Lobby"
    by (auto simp: roomSelectGame_def Let_def resetRoles_frame updRoom_frame)
next
  assume "rooms s cd = Some r \<and> isHost s socket r \<and> truthy (gameId (roomObj s r))"
  then show "phase (roomObj (fst (roomStart socket cd s)) r) = Roles"
    by (auto simp: roomStart_def Let_def resetRoles_frame updRoom_frame)
next
  assume "rooms s cd = Some r \<and> isHost s socket r"
  then show "phase (roomObj (fst (roomReset socket cd s)) r) = Lobby"
    by (auto simp: roomReset_def Let_def resetRoles_frame updRoom_frame)
qed

text \<open>
  Dee's submission moves the example room from \<open>roles\<close> to \<open>ready\<close>; after the reveal,
  Ann's \<open>selectGame\<close>, \<open>start\<close> and \<open>reset\<close> set the phase to \<open>lobby\<close>, \<open>roles\<close> and
  \<open>lobby\<close>.
\<close>

theorem phase_moves_forward_witness:
  "phaseRank (phase (roomObj demoThreeState 0)) \<le>
     phaseRank (phase (roomObj (fst (roleSubmit demoGameMap ''s4'' ''1234'' ''servant'' demoThreeState)) 0)) \<and>
   phase (roomObj (fst (roomSelectGame demoGameMap ''s1'' ''1234'' ''avalon'' demoState)) 0) = Lobby \<and>
   phase (roomObj (fst (roomStart ''s1'' ''1234'' demoState)) 0) = Roles \<and>
   phase (roomObj (fst (roomReset ''s1'' ''1234'' demoState)) 0) = Lobby"
proof -
  let ?e = "RoleSubmit ''s4'' ''1234'' ''servant''"
  have e: "\<not> assignsPhase ?e \<and>
       step asciiJs demoGameMap ?e demoThreeState =
         Some (fst (roleSubmit demoGameMap ''s4'' ''1234'' ''servant'' demoThreeState),
               snd (roleSubmit demoGameMap ''s4'' ''1234'' ''servant'' demoThreeState)) \<and>
       0 < nextRoom demoThreeState"
    by (simp add: demoThreeState_eq)
  have h: "rooms demoState ''1234'' = Some 0 \<and> isHost demoState ''s1'' 0"
    by (simp add: demoState_eq isHost_def)
  have g: "demoGameMap ''avalon'' \<noteq> None" "truthy (gameId (roomObj demoState 0))"
    by (simp_all add: demoGameMap_def demoState_eq truthy_def)
  note t = phase_moves_forward[where e = ?e and gameMap = demoGameMap and s = demoThreeState
      and s' = "fst (roleSubmit demoGameMap ''s4'' ''1234'' ''servant'' demoThreeState)"
      and out = "snd (roleSubmit demoGameMap ''s4'' ''1234'' ''servant'' demoThreeState)"
      and r = 0]
  note u = phase_moves_forward[where gameMap = demoGameMap and s = demoState and r = 0
      and cd = "''1234''" and socket = "''s1''" and gid = "''avalon''"]
  from t e have 1: "phaseRank (phase (roomObj demoThreeState 0)) \<le>
     phaseRank (phase (roomObj (fst (roleSubmit demoGameMap ''s4'' ''1234'' ''servant'' demoThreeState)) 0))"
    by blast
  from u h g have 2: "phase (roomObj (fst (roomSelectGame demoGameMap ''s1'' ''1234'' ''avalon'' demoState)) 0) = Lobby"
    "phase (roomObj (fst (roomStart ''s1'' ''1234'' demoState)) 0) = Roles"
    "phase (roomObj (fst (roomReset ''s1'' ''1234'' demoState)) 0) = Lobby"
    by blast+
  from 1 2 show ?thesis by simp
qed

lemma run_reachable: "reachable js gameMap s \<Longrightarrow> reachable js gameMap (run js gameMap es s)"
proof (induction es arbitrary: s)
  case Nil
  then show ?case by simp
next
  case (Cons e es)
  show ?case
  proof (cases "step js gameMap e s")
    case None
    with Cons.prems show ?thesis by simp
  next
    case (Some res)
    obtain s' out where res: "res = (s', out)" by (cases res)
    from Cons.prems Some res have "reachable js gameMap s'" by (auto intro: reachable_step)
    then have "reachable js gameMap (run js gameMap es s')" by (rule Cons.IH)
    with Some res show ?thesis by simp
  qed
qed

lemma demo_reachable:
  "reachable asciiJs demoGameMap demoState" "reachable asciiJs demoGameMap demoThreeState"
  "reachable asciiJs demoGameMap soloState"
  unfolding demo_state_defs by (rule run_reachable[OF reachable_init])+

text \<open>
  Claim C2 as stated fails: the example room is reachable and in phase \<open>reveal\<close>; the
  host's \<open>room:selectGame\<close> moves it back to \<open>lobby\<close>, and the host's \<open>room:start\<close> moves
  it back to \<open>roles\<close>.
\<close>

theorem selectGame_and_start_leave_reveal:
  "reachable asciiJs demoGameMap demoState \<and>
   phase (roomObj demoState 0) = Reveal \<and>
   phase (roomObj (run asciiJs demoGameMap [RoomSelectGame ''s1'' ''1234'' ''avalon''] demoState) 0) = Lobby \<and>
   phase (roomObj (run asciiJs demoGameMap [RoomStart ''s1'' ''1234''] demoState) 0) = Roles"
  by (simp add: demo_reachable)
     (simp add: demoState_eq roomSelectGame_def roomStart_def isHost_def demoGameMap_def truthy_def
        Let_def resetRoles_frame updRoom_frame)

section \<open>The invariant of the store\<close>

lemma inv_frame:
  "roomObj s' = roomObj s \<Longrightarrow> playerObj s' = playerObj s \<Longrightarrow> nextRoom s' = nextRoom s \<Longrightarrow>
   nextPlayer s' = nextPlayer s \<Longrightarrow> rooms s' = rooms s \<Longrightarrow> timers s' = timers s \<Longrightarrow>
   storeInv s' = storeInv s"
  by (simp add: storeInv_def liveInv_def roomInv_def timersInv_def)

lemma departing_frame:
  "roomObj s' = roomObj s \<Longrightarrow> playerObj s' = playerObj s \<Longrightarrow> nextRoom s' = nextRoom s \<Longrightarrow>
   nextPlayer s' = nextPlayer s \<Longrightarrow> rooms s' = rooms s \<Longrightarrow> timers s' = timers s \<Longrightarrow>
   departing r pid s' = departing r pid s"
  by (simp add: departing_def roomInv_def timersInv_def)

lemma roomInv_updPlayer:
  "(\<And>p. player_id (f p) = player_id p) \<Longrightarrow> roomInv (updPlayer a f s) rm = roomInv s rm"
  by (auto simp: roomInv_def updPlayer_def list_all_iff)

lemma inv_updPlayer:
  "(\<And>p. player_id (f p) = player_id p) \<Longrightarrow> storeInv (updPlayer a f s) = storeInv s"
  by (simp add: storeInv_def roomInv_updPlayer)
     (simp add: liveInv_def timersInv_def updPlayer_def)

lemma departing_updPlayer:
  "(\<And>p. player_id (f p) = player_id p) \<Longrightarrow> departing r pid (updPlayer a f s) = departing r pid s"
  by (simp add: departing_def roomInv_updPlayer)
     (auto simp: timersInv_def updPlayer_def list_all_iff)

lemma inv_clearTimeout: "storeInv s \<Longrightarrow> storeInv (clearTimeout t s)"
  by (simp add: storeInv_def liveInv_def roomInv_def timersInv_def clearTimeout_def)

lemma departing_clearTimeout: "departing r pid s \<Longrightarrow> departing r pid (clearTimeout t s)"
  by (simp add: departing_def roomInv_def timersInv_def clearTimeout_def)

lemma inv_sessionIndex: "storeInv (s\<lparr>sessionIndex := x\<rparr>) = storeInv s"
  by (rule inv_frame) simp_all

lemma inv_socketIndex: "storeInv (s\<lparr>socketIndex := x\<rparr>) = storeInv s"
  by (rule inv_frame) simp_all

lemma departing_sessionIndex: "departing r pid (s\<lparr>sessionIndex := x\<rparr>) = departing r pid s"
  by (rule departing_frame) simp_all

lemma departing_socketIndex: "departing r pid (s\<lparr>socketIndex := x\<rparr>) = departing r pid s"
  by (rule departing_frame) simp_all

lemma inv_bindSession: "storeInv s \<Longrightarrow> storeInv (bindSession sid cd a socket s)"
  by (simp add: bindSession_def Let_def inv_sessionIndex inv_socketIndex inv_updPlayer inv_clearTimeout
      split: option.splits)

lemma inv_resetRoles_fold:
  "(\<And>p. player_id (g p) = player_id p) \<Longrightarrow> storeInv (fold (\<lambda>(k, a). updPlayer a g) xs s) = storeInv s"
  by (induction xs arbitrary: s) (auto simp: inv_updPlayer)

lemma inv_resetRoles: "storeInv (resetRoles r s) = storeInv s"
  by (simp add: resetRoles_def inv_resetRoles_fold)

lemma inv_updRoom:
  assumes "storeInv s"
    and "players (f (roomObj s r)) = players (roomObj s r)"
    and "ownerId (f (roomObj s r)) = ownerId (roomObj s r)"
    and "code (f (roomObj s r)) = code (roomObj s r)"
  shows "storeInv (updRoom r f s)"
  using assms by (auto simp: storeInv_def liveInv_def roomInv_def timersInv_def updRoom_def)

lemma storeInvI:
  assumes "\<And>c r. rooms s c = Some r \<Longrightarrow>
             r < nextRoom s \<and> code (roomObj s r) = c \<and> players (roomObj s r) \<noteq> []"
    and "\<And>t r a. timers s t = Some (r, a) \<Longrightarrow> r < nextRoom s"
    and "\<And>r. r < nextRoom s \<Longrightarrow> roomInv s (roomObj s r)"
  shows "storeInv s"
  using assms unfolding storeInv_def liveInv_def timersInv_def by blast

lemma inv_live:
  "storeInv s \<Longrightarrow> rooms s c = Some r \<Longrightarrow>
   r < nextRoom s \<and> code (roomObj s r) = c \<and> players (roomObj s r) \<noteq> []"
  unfolding storeInv_def liveInv_def by blast

lemma inv_timer: "storeInv s \<Longrightarrow> timers s t = Some (r, a) \<Longrightarrow> r < nextRoom s"
  unfolding storeInv_def timersInv_def by blast

lemma inv_room: "storeInv s \<Longrightarrow> r < nextRoom s \<Longrightarrow> roomInv s (roomObj s r)"
  unfolding storeInv_def by blast

lemma departingI:
  assumes "\<And>c r'. rooms s c = Some r' \<Longrightarrow>
             r' < nextRoom s \<and> code (roomObj s r') = c \<and> (r' = r \<or> players (roomObj s r') \<noteq> [])"
    and "\<And>t r a. timers s t = Some (r, a) \<Longrightarrow> r < nextRoom s"
    and "\<And>r'. r' < nextRoom s \<Longrightarrow> r' \<noteq> r \<Longrightarrow> roomInv s (roomObj s r')"
    and "list_all (\<lambda>(k, a). a < nextPlayer s \<and> player_id (playerObj s a) = k) (players (roomObj s r))"
    and "distinct (map fst (players (roomObj s r)))"
    and "ownerId (roomObj s r) = pid \<or> players (roomObj s r) = [] \<or>
         ownerId (roomObj s r) \<in> fst ` set (players (roomObj s r))"
  shows "departing r pid s"
  using assms unfolding departing_def timersInv_def by blast

lemma departing_live:
  "departing r pid s \<Longrightarrow> rooms s c = Some r' \<Longrightarrow>
   r' < nextRoom s \<and> code (roomObj s r') = c \<and> (r' = r \<or> players (roomObj s r') \<noteq> [])"
  unfolding departing_def by blast

lemma departing_timer: "departing r pid s \<Longrightarrow> timers s t = Some (r', a) \<Longrightarrow> r' < nextRoom s"
  unfolding departing_def timersInv_def by blast

lemma departing_room:
  "departing r pid s \<Longrightarrow> r' < nextRoom s \<Longrightarrow> r' \<noteq> r \<Longrightarrow> roomInv s (roomObj s r')"
  unfolding departing_def by blast

lemma departing_players:
  "departing r pid s \<Longrightarrow>
   list_all (\<lambda>(k, a). a < nextPlayer s \<and> player_id (playerObj s a) = k) (players (roomObj s r))"
  unfolding departing_def by blast

lemma departing_distinct:
  "departing r pid s \<Longrightarrow> distinct (map fst (players (roomObj s r)))"
  unfolding departing_def by blast

lemma departing_owner:
  "departing r pid s \<Longrightarrow>
   ownerId (roomObj s r) = pid \<or> players (roomObj s r) = [] \<or>
   ownerId (roomObj s r) \<in> fst ` set (players (roomObj s r))"
  unfolding departing_def by blast

lemma inv_departing:
  assumes "storeInv s" and "r < nextRoom s"
  shows "departing r pid (updRoom r (\<lambda>rm. rm\<lparr>players := AList.delete pid (players rm)\<rparr>) s)"
proof (rule departingI)
  let ?s' = "updRoom r (\<lambda>rm. rm\<lparr>players := AList.delete pid (players rm)\<rparr>) s"
  from assms have rm: "roomInv s (roomObj s r)" by (rule inv_room)
  fix c r'
  assume "rooms ?s' c = Some r'"
  then have "rooms s c = Some r'" by (simp add: updRoom_frame)
  from inv_live[OF assms(1) this]
  show "r' < nextRoom ?s' \<and> code (roomObj ?s' r') = c \<and> (r' = r \<or> players (roomObj ?s' r') \<noteq> [])"
    by (auto simp: updRoom_frame)
next
  let ?s' = "updRoom r (\<lambda>rm. rm\<lparr>players := AList.delete pid (players rm)\<rparr>) s"
  fix t r' a
  assume "timers ?s' t = Some (r', a)"
  then have "timers s t = Some (r', a)" by (simp add: updRoom_def)
  from inv_timer[OF assms(1) this] show "r' < nextRoom ?s'" by (simp add: updRoom_frame)
next
  let ?s' = "updRoom r (\<lambda>rm. rm\<lparr>players := AList.delete pid (players rm)\<rparr>) s"
  fix r'
  assume "r' < nextRoom ?s'" and ne: "r' \<noteq> r"
  then have "r' < nextRoom s" by (simp add: updRoom_frame)
  from inv_room[OF assms(1) this] ne show "roomInv ?s' (roomObj ?s' r')"
    by (simp add: roomInv_def updRoom_frame)
next
  let ?s' = "updRoom r (\<lambda>rm. rm\<lparr>players := AList.delete pid (players rm)\<rparr>) s"
  from assms have rm: "roomInv s (roomObj s r)" by (rule inv_room)
  then show "list_all (\<lambda>(k, a). a < nextPlayer ?s' \<and> player_id (playerObj ?s' a) = k)
               (players (roomObj ?s' r))"
    by (auto simp: roomInv_def list_all_iff AList.delete_eq updRoom_frame)
next
  let ?s' = "updRoom r (\<lambda>rm. rm\<lparr>players := AList.delete pid (players rm)\<rparr>) s"
  from assms have rm: "roomInv s (roomObj s r)" by (rule inv_room)
  then have "distinct (map fst (players (roomObj s r)))" by (simp add: roomInv_def)
  then have "distinct (map fst (AList.delete pid (players (roomObj s r))))"
    by (rule AList.distinct_delete)
  then show "distinct (map fst (players (roomObj ?s' r)))" by (simp add: updRoom_frame)
next
  let ?s' = "updRoom r (\<lambda>rm. rm\<lparr>players := AList.delete pid (players rm)\<rparr>) s"
  from assms have rm: "roomInv s (roomObj s r)" by (rule inv_room)
  have keys: "fst ` set (AList.delete pid (players (roomObj s r))) = fst ` set (players (roomObj s r)) - {pid}"
    by (auto simp: AList.delete_eq)
  from rm keys show "ownerId (roomObj ?s' r) = pid \<or> players (roomObj ?s' r) = [] \<or>
       ownerId (roomObj ?s' r) \<in> fst ` set (players (roomObj ?s' r))"
    by (auto simp: roomInv_def updRoom_frame)
qed

lemma departing_afterRemoval:
  assumes "departing r pid s"
  shows "storeInv (fst (afterRemoval r pid s))"
proof (cases "players (roomObj s r)")
  case Nil
  let ?s' = "s\<lparr>rooms := (rooms s)(code (roomObj s r) := None)\<rparr>"
  from Nil have s': "fst (afterRemoval r pid s) = ?s'"
    by (simp add: afterRemoval_def)
  have "storeInv ?s'"
  proof (rule storeInvI)
    fix c r'
    assume a: "rooms ?s' c = Some r'"
    then have c: "c \<noteq> code (roomObj s r)" and live: "rooms s c = Some r'"
      by (auto split: if_splits)
    from departing_live[OF assms live] c
    show "r' < nextRoom ?s' \<and> code (roomObj ?s' r') = c \<and> players (roomObj ?s' r') \<noteq> []"
      by auto
  next
    fix t r' a
    assume "timers ?s' t = Some (r', a)"
    then have "timers s t = Some (r', a)" by simp
    from departing_timer[OF assms this] show "r' < nextRoom ?s'" by simp
  next
    fix r'
    assume lt: "r' < nextRoom ?s'"
    show "roomInv ?s' (roomObj ?s' r')"
    proof (cases "r' = r")
      case True
      with Nil show ?thesis by (simp add: roomInv_def)
    next
      case False
      with lt departing_room[OF assms, of r'] show ?thesis by (simp add: roomInv_def)
    qed
  qed
  with s' show ?thesis by simp
next
  case (Cons p rest)
  obtain k nextOwner where p: "p = (k, nextOwner)" by (cases p)
  from departing_players[OF assms] Cons p have k: "player_id (playerObj s nextOwner) = k"
    by simp
  let ?s' = "if ownerId (roomObj s r) = pid then updRoom r (\<lambda>rm. rm\<lparr>ownerId := k\<rparr>) s else s"
  from Cons p k have s': "fst (afterRemoval r pid s) = ?s'"
    by (simp add: afterRemoval_def Let_def)
  have fr: "rooms ?s' = rooms s" "timers ?s' = timers s" "nextRoom ?s' = nextRoom s"
    "nextPlayer ?s' = nextPlayer s" "playerObj ?s' = playerObj s"
    "\<And>r'. r' \<noteq> r \<Longrightarrow> roomObj ?s' r' = roomObj s r'"
    "players (roomObj ?s' r) = players (roomObj s r)" "code (roomObj ?s' r) = code (roomObj s r)"
    by (simp_all add: updRoom_def)
  have "storeInv ?s'"
  proof (rule storeInvI)
    fix c r'
    assume "rooms ?s' c = Some r'"
    then have live: "rooms s c = Some r'" by (simp only: fr)
    show "r' < nextRoom ?s' \<and> code (roomObj ?s' r') = c \<and> players (roomObj ?s' r') \<noteq> []"
    proof (cases "r' = r")
      case True
      with departing_live[OF assms live] Cons show ?thesis by (simp add: fr)
    next
      case False
      with departing_live[OF assms live] show ?thesis by (simp add: fr)
    qed
  next
    fix t r' a
    assume "timers ?s' t = Some (r', a)"
    then have "timers s t = Some (r', a)" by (simp only: fr)
    from departing_timer[OF assms this] show "r' < nextRoom ?s'" by (simp only: fr)
  next
    fix r'
    assume "r' < nextRoom ?s'"
    then have lt: "r' < nextRoom s" by (simp only: fr)
    show "roomInv ?s' (roomObj ?s' r')"
    proof (cases "r' = r")
      case True
      have "ownerId (roomObj ?s' r) \<in> fst ` set (players (roomObj s r))"
      proof (cases "ownerId (roomObj s r) = pid")
        case True
        with Cons p show ?thesis by (simp add: updRoom_def)
      next
        case False
        with departing_owner[OF assms] Cons show ?thesis by simp
      qed
      with departing_players[OF assms] departing_distinct[OF assms] True show ?thesis
        by (simp add: roomInv_def fr)
    next
      case False
      with departing_room[OF assms lt] show ?thesis by (simp add: roomInv_def fr)
    qed
  qed
  with s' show ?thesis by simp
qed

lemma inv_removePlayerFromRoom:
  assumes "storeInv s" and "r < nextRoom s"
  shows "storeInv (fst (removePlayerFromRoom r pid sid socket s))"
proof (cases "map_of (players (roomObj s r)) pid")
  case None
  with assms show ?thesis by (simp add: removePlayerFromRoom_tail)
next
  case (Some a)
  define s1 where "s1 = (case disconnectTimer (playerObj s a) of
                       None \<Rightarrow> s
                     | Some t \<Rightarrow> updPlayer a (\<lambda>p. p\<lparr>disconnectTimer := None\<rparr>) (clearTimeout t s))"
  define s2 where "s2 = updRoom r (\<lambda>rm. rm\<lparr>players := AList.delete pid (players rm)\<rparr>) s1"
  define s3 where "s3 = (if sid \<noteq> [] then s2\<lparr>sessionIndex := (sessionIndex s2)(sid := None)\<rparr> else s2)"
  define s4 where "s4 = (if socket \<noteq> [] then s3\<lparr>socketIndex := (socketIndex s3)(socket := None)\<rparr> else s3)"
  have res: "removePlayerFromRoom r pid sid socket s = afterRemoval r pid s4"
    using Some by (simp add: removePlayerFromRoom_tail Let_def s1_def s2_def s3_def s4_def)
  from assms have "storeInv s1 \<and> r < nextRoom s1"
    by (simp add: s1_def inv_updPlayer inv_clearTimeout updPlayer_frame clearTimeout_frame
        split: option.splits)
  then have "departing r pid s2" unfolding s2_def by (simp add: inv_departing)
  then have "departing r pid s3" by (simp add: s3_def departing_sessionIndex)
  then have "departing r pid s4" by (simp add: s4_def departing_socketIndex)
  then show ?thesis unfolding res by (rule departing_afterRemoval)
qed

lemma inv_graceCallback:
  assumes "storeInv s" and "r < nextRoom s"
  shows "storeInv (fst (graceCallback r a s))"
proof (cases "connected (playerObj s a)")
  case True
  with assms show ?thesis by (simp add: graceCallback_tail)
next
  case False
  let ?pid = "player_id (playerObj s a)"
  let ?s1 = "updRoom r (\<lambda>rm. rm\<lparr>players := AList.delete ?pid (players rm)\<rparr>) s"
  from assms have "departing r ?pid ?s1" by (rule inv_departing)
  then have "departing r ?pid (?s1\<lparr>sessionIndex := (sessionIndex ?s1)(sessionId (playerObj ?s1 a) := None)\<rparr>)"
    by (simp add: departing_sessionIndex)
  then have "storeInv (fst (afterRemoval r ?pid
      (?s1\<lparr>sessionIndex := (sessionIndex ?s1)(sessionId (playerObj ?s1 a) := None)\<rparr>)))"
    by (rule departing_afterRemoval)
  with False show ?thesis by (simp add: graceCallback_tail Let_def)
qed

lemma inv_sessionRestore: "storeInv s \<Longrightarrow> storeInv (fst (sessionRestore gameMap socket sid s))"
  by (simp add: sessionRestore_def Let_def inv_sessionIndex inv_bindSession split: option.splits)

lemma inv_newPlayer:
  assumes "storeInv s"
  shows "storeInv (snd (newPlayer p s))"
proof -
  have old: "roomInv (snd (newPlayer p s)) rm" if "roomInv s rm" for rm
    using that by (auto simp: roomInv_def newPlayer_def list_all_iff)
  show ?thesis
  proof (rule storeInvI)
    fix c r
    assume "rooms (snd (newPlayer p s)) c = Some r"
    then have "rooms s c = Some r" by (simp add: newPlayer_def)
    from inv_live[OF assms this]
    show "r < nextRoom (snd (newPlayer p s)) \<and> code (roomObj (snd (newPlayer p s)) r) = c \<and>
          players (roomObj (snd (newPlayer p s)) r) \<noteq> []"
      by (simp add: newPlayer_def)
  next
    fix t r a
    assume "timers (snd (newPlayer p s)) t = Some (r, a)"
    then have "timers s t = Some (r, a)" by (simp add: newPlayer_def)
    from inv_timer[OF assms this] show "r < nextRoom (snd (newPlayer p s))" by (simp add: newPlayer_def)
  next
    fix r
    assume "r < nextRoom (snd (newPlayer p s))"
    then have "r < nextRoom s" by (simp add: newPlayer_def)
    from old[OF inv_room[OF assms this]]
    show "roomInv (snd (newPlayer p s)) (roomObj (snd (newPlayer p s)) r)" by (simp add: newPlayer_def)
  qed
qed

lemma newPlayer_frame:
  "fst (newPlayer p s) = nextPlayer s"
  "nextPlayer (snd (newPlayer p s)) = Suc (nextPlayer s)"
  "playerObj (snd (newPlayer p s)) (nextPlayer s) = p"
  "roomObj (snd (newPlayer p s)) = roomObj s"
  "rooms (snd (newPlayer p s)) = rooms s"
  "nextRoom (snd (newPlayer p s)) = nextRoom s"
  "timers (snd (newPlayer p s)) = timers s"
  by (simp_all add: newPlayer_def)

lemma inv_createRoom:
  assumes "storeInv s" and "a < nextPlayer s" and "player_id (playerObj s a) = pid"
  shows "storeInv ((snd (newRoom \<lparr>code = c, ownerId = pid, gameId = None, phase = Lobby,
                            players = [(pid, a)]\<rparr> s))\<lparr>rooms := (rooms s)(c \<mapsto> nextRoom s)\<rparr>)"
    (is "storeInv ?s'")
proof (rule storeInvI)
  fix c' r
  assume a: "rooms ?s' c' = Some r"
  show "r < nextRoom ?s' \<and> code (roomObj ?s' r) = c' \<and> players (roomObj ?s' r) \<noteq> []"
  proof (cases "c' = c")
    case True
    with a show ?thesis by (simp add: newRoom_def)
  next
    case False
    with a have live: "rooms s c' = Some r" by (simp add: newRoom_def)
    from inv_live[OF assms(1) live] show ?thesis by (simp add: newRoom_def)
  qed
next
  fix t r b
  assume "timers ?s' t = Some (r, b)"
  then have "timers s t = Some (r, b)" by (simp add: newRoom_def)
  from inv_timer[OF assms(1) this] show "r < nextRoom ?s'" by (simp add: newRoom_def)
next
  fix r
  assume lt: "r < nextRoom ?s'"
  show "roomInv ?s' (roomObj ?s' r)"
  proof (cases "r = nextRoom s")
    case True
    with assms(2,3) show ?thesis by (simp add: newRoom_def roomInv_def)
  next
    case False
    with lt have "r < nextRoom s" by (simp add: newRoom_def)
    from inv_room[OF assms(1) this] False show ?thesis by (simp add: newRoom_def roomInv_def)
  qed
qed

lemma inv_roomCreate:
  assumes "storeInv s" and "roomCreate socket nm raw su draws pu s = Some (s', out)"
  shows "storeInv s'"
proof (cases "truthy nm")
  case False
  with assms show ?thesis by (simp add: roomCreate_def Let_def)
next
  case True
  with assms(2) obtain c where c: "generateRoomCode (rooms s) draws 0 = Some c"
    by (auto simp: roomCreate_def Let_def split: option.splits)
  let ?p = "createPlayer pu (orElse nm []) socket (orElse raw su)"
  let ?s1 = "snd (newPlayer ?p s)"
  let ?a = "nextPlayer s"
  let ?s3 = "(snd (newRoom \<lparr>code = c, ownerId = pu, gameId = None, phase = Lobby,
                            players = [(pu, ?a)]\<rparr> ?s1))\<lparr>rooms := (rooms ?s1)(c \<mapsto> nextRoom ?s1)\<rparr>"
  have s': "s' = bindSession (orElse raw su) c ?a socket ?s3"
    using assms(2) True c
    by (simp add: roomCreate_def Let_def newPlayer_def newRoom_def createPlayer_def split: prod.splits)
  have "storeInv ?s1" using assms(1) by (rule inv_newPlayer)
  moreover have "?a < nextPlayer ?s1" "player_id (playerObj ?s1 ?a) = pu"
    by (simp_all add: newPlayer_frame createPlayer_def)
  ultimately have "storeInv ?s3" by (rule inv_createRoom)
  then show ?thesis unfolding s' by (rule inv_bindSession)
qed

lemma inv_addPlayer:
  assumes "storeInv s" and "rooms s cd = Some r" and "a < nextPlayer s" and "player_id (playerObj s a) = pid"
  shows "storeInv (updRoom r (\<lambda>rm. rm\<lparr>players := AList.update pid a (players rm)\<rparr>) s)" (is "storeInv ?s'")
proof (rule storeInvI)
  fix c r'
  assume "rooms ?s' c = Some r'"
  then have live: "rooms s c = Some r'" by (simp add: updRoom_frame)
  have ne: "AList.update pid a ps \<noteq> []" for ps :: "(string \<times> nat) list"
    by (cases ps) auto
  from inv_live[OF assms(1) live] ne
  show "r' < nextRoom ?s' \<and> code (roomObj ?s' r') = c \<and> players (roomObj ?s' r') \<noteq> []"
    by (auto simp: updRoom_frame)
next
  fix t r' b
  assume "timers ?s' t = Some (r', b)"
  then have "timers s t = Some (r', b)" by (simp add: updRoom_def)
  from inv_timer[OF assms(1) this] show "r' < nextRoom ?s'" by (simp add: updRoom_frame)
next
  fix r'
  assume "r' < nextRoom ?s'"
  then have lt: "r' < nextRoom s" by (simp add: updRoom_frame)
  note rm = inv_room[OF assms(1) lt]
  show "roomInv ?s' (roomObj ?s' r')"
  proof (cases "r' = r")
    case False
    with rm show ?thesis by (simp add: roomInv_def updRoom_frame)
  next
    case True
    have sub: "set (AList.update pid a ps) \<subseteq> insert (pid, a) (set ps)" for ps :: "(string \<times> nat) list"
      by (induction ps) auto
    have keys: "fst ` set (AList.update pid a ps) = insert pid (fst ` set ps)" for ps :: "(string \<times> nat) list"
      by (induction ps) auto
    from rm True assms(3,4) sub[of "players (roomObj s r)"]
    have "list_all (\<lambda>(k, b). b < nextPlayer s \<and> player_id (playerObj s b) = k)
            (AList.update pid a (players (roomObj s r)))"
      by (auto simp: roomInv_def list_all_iff)
    moreover from rm True have "ownerId (roomObj s r) \<in> fst ` set (AList.update pid a (players (roomObj s r)))"
      using inv_live[OF assms(1,2)] by (auto simp: roomInv_def keys)
    moreover from rm True have "distinct (map fst (AList.update pid a (players (roomObj s r))))"
      by (simp add: roomInv_def AList.distinct_update)
    ultimately show ?thesis using True by (simp add: roomInv_def updRoom_frame)
  qed
qed

lemma inv_roomJoin:
  assumes "storeInv s"
  shows "storeInv (fst (roomJoin js socket cd nm raw su pu s))"
proof (cases "truthy cd \<and> truthy nm")
  case False
  then have "roomJoin js socket cd nm raw su pu s = (s, [RoomError socket ''Code and name are required''])"
    by (auto simp: roomJoin_def Let_def)
  with assms show ?thesis by simp
next
  case present: True
  show ?thesis
  proof (cases "rooms s (orElse cd [])")
    case None
    with present have "roomJoin js socket cd nm raw su pu s = (s, [RoomError socket ''Room not found''])"
      by (simp add: roomJoin_def Let_def)
    with assms show ?thesis by simp
  next
    case (Some r)
    let ?taken = "list_ex (\<lambda>p. normalizeName js (player_name p) = normalizeName js (orElse nm []))
                    (playerValues (playerObj s) (roomObj s r))"
    show ?thesis
    proof (cases "?taken \<or> phase (roomObj s r) \<noteq> Lobby")
      case True
      with present Some have "fst (roomJoin js socket cd nm raw su pu s) = s"
        by (auto simp: roomJoin_def Let_def)
      with assms show ?thesis by simp
    next
      case False
      let ?s1 = "snd (newPlayer (createPlayer pu (orElse nm []) socket (orElse raw su)) s)"
      let ?s2 = "updRoom r (\<lambda>rm. rm\<lparr>players := AList.update pu (nextPlayer s) (players rm)\<rparr>) ?s1"
      from present Some False
      have s': "fst (roomJoin js socket cd nm raw su pu s) =
                bindSession (orElse raw su) (orElse cd []) (nextPlayer s) socket ?s2"
        by (simp add: roomJoin_def Let_def newPlayer_def createPlayer_def)
      have "storeInv ?s1" using assms by (rule inv_newPlayer)
      moreover have "rooms ?s1 (orElse cd []) = Some r" using Some by (simp add: newPlayer_frame)
      moreover have "nextPlayer s < nextPlayer ?s1" "player_id (playerObj ?s1 (nextPlayer s)) = pu"
        by (simp_all add: newPlayer_frame createPlayer_def)
      ultimately have "storeInv ?s2" by (rule inv_addPlayer)
      then show ?thesis unfolding s' by (rule inv_bindSession)
    qed
  qed
qed

lemma inv_roomSelectGame: "storeInv s \<Longrightarrow> storeInv (fst (roomSelectGame gameMap socket cd gid s))"
  by (simp add: roomSelectGame_def Let_def inv_resetRoles inv_updRoom split: option.splits)

lemma inv_roomStart: "storeInv s \<Longrightarrow> storeInv (fst (roomStart socket cd s))"
  by (simp add: roomStart_def Let_def inv_resetRoles inv_updRoom split: option.splits)

lemma inv_roomReset: "storeInv s \<Longrightarrow> storeInv (fst (roomReset socket cd s))"
  by (simp add: roomReset_def Let_def inv_resetRoles inv_updRoom split: option.splits)

lemma inv_roomLeave:
  assumes "storeInv s"
  shows "storeInv (fst (roomLeave socket s))"
proof (cases "socketIndex s socket")
  case None
  with assms show ?thesis by (simp add: roomLeave_def)
next
  case (Some index)
  show ?thesis
  proof (cases "rooms s (ix_code index)")
    case None
    with Some assms show ?thesis
      by (simp add: roomLeave_def Let_def inv_sessionIndex inv_socketIndex)
  next
    case live: (Some r)
    from inv_live[OF assms live] have "r < nextRoom s" by simp
    with assms have "storeInv (fst (removePlayerFromRoom r (ix_playerId index) (ix_sessionId index) socket s))"
      by (rule inv_removePlayerFromRoom)
    with Some live show ?thesis by (simp add: roomLeave_def Let_def case_prod_beta)
  qed
qed

lemma inv_roleSubmit: "storeInv s \<Longrightarrow> storeInv (fst (roleSubmit gameMap socket cd rid s))"
  by (simp add: roleSubmit_def Let_def inv_updPlayer inv_updRoom split: option.splits)

lemma inv_roomRevealConfirm: "storeInv s \<Longrightarrow> storeInv (fst (roomRevealConfirm gameMap socket cd s))"
  by (simp add: roomRevealConfirm_def Let_def inv_updRoom split: option.splits)

lemma inv_setTimeout:
  assumes "storeInv s" and "r < nextRoom s"
  shows "storeInv (snd (setTimeout (r, a) s))"
proof (rule storeInvI)
  fix c r'
  assume "rooms (snd (setTimeout (r, a) s)) c = Some r'"
  then have "rooms s c = Some r'" by (simp add: setTimeout_def)
  from inv_live[OF assms(1) this]
  show "r' < nextRoom (snd (setTimeout (r, a) s)) \<and> code (roomObj (snd (setTimeout (r, a) s)) r') = c \<and>
        players (roomObj (snd (setTimeout (r, a) s)) r') \<noteq> []"
    by (simp add: setTimeout_def)
next
  fix t r' b
  assume t: "timers (snd (setTimeout (r, a) s)) t = Some (r', b)"
  show "r' < nextRoom (snd (setTimeout (r, a) s))"
  proof (cases "t = nextTimer s")
    case True
    with t assms(2) show ?thesis by (simp add: setTimeout_def)
  next
    case False
    with t have "timers s t = Some (r', b)" by (simp add: setTimeout_def)
    from inv_timer[OF assms(1) this] show ?thesis by (simp add: setTimeout_def)
  qed
next
  fix r'
  assume "r' < nextRoom (snd (setTimeout (r, a) s))"
  then have "r' < nextRoom s" by (simp add: setTimeout_def)
  from inv_room[OF assms(1) this]
  show "roomInv (snd (setTimeout (r, a) s)) (roomObj (snd (setTimeout (r, a) s)) r')"
    by (simp add: setTimeout_def roomInv_def)
qed

lemma inv_disconnect:
  assumes "storeInv s"
  shows "storeInv (fst (disconnect socket s))"
proof (cases "socketIndex s socket")
  case None
  with assms show ?thesis by (simp add: disconnect_def)
next
  case (Some index)
  show ?thesis
  proof (cases "rooms s (ix_code index)")
    case None
    with Some assms show ?thesis by (simp add: disconnect_def inv_socketIndex)
  next
    case live: (Some r)
    let ?s1 = "s\<lparr>socketIndex := (socketIndex s)(socket := None)\<rparr>"
    have i1: "storeInv ?s1" using assms by (simp add: inv_socketIndex)
    show ?thesis
    proof (cases "map_of (players (roomObj ?s1 r)) (ix_playerId index)")
      case None
      with Some live i1 show ?thesis by (simp add: disconnect_def Let_def)
    next
      case player: (Some a)
      let ?s2 = "updPlayer a (\<lambda>p. p\<lparr>connected := False\<rparr>) ?s1"
      let ?s3 = "case disconnectTimer (playerObj ?s2 a) of None \<Rightarrow> ?s2 | Some t \<Rightarrow> clearTimeout t ?s2"
      let ?s4 = "snd (setTimeout (r, a) ?s3)"
      let ?s5 = "updPlayer a (\<lambda>p. p\<lparr>disconnectTimer := Some (nextTimer ?s3)\<rparr>) ?s4"
      have s': "fst (disconnect socket s) = ?s5"
        using Some live player by (simp add: disconnect_def Let_def setTimeout_def)
      have i2: "storeInv ?s2" using i1 by (simp add: inv_updPlayer)
      have i3: "storeInv ?s3" using i2 by (simp add: inv_clearTimeout split: option.splits)
      from inv_live[OF assms live] have "r < nextRoom ?s3"
        by (simp add: updPlayer_frame clearTimeout_frame split: option.splits)
      with i3 have "storeInv ?s4" by (rule inv_setTimeout)
      then have "storeInv ?s5" by (simp add: inv_updPlayer)
      with s' show ?thesis by simp
    qed
  qed
qed

lemma inv_timerFires:
  assumes "storeInv s" and "timerFires t s = Some (s', out)"
  shows "storeInv s'"
proof -
  from assms(2) obtain r a where ta: "timers s t = Some (r, a)"
    and s': "s' = fst (graceCallback r a (clearTimeout t s))"
    by (auto simp: timerFires_def split: option.splits)
  from inv_timer[OF assms(1) ta] have "r < nextRoom (clearTimeout t s)" by (simp add: clearTimeout_frame)
  with inv_clearTimeout[OF assms(1)] show ?thesis unfolding s' by (rule inv_graceCallback)
qed

lemma inv_step:
  assumes "storeInv s" and "step js gameMap e s = Some (s', out)"
  shows "storeInv s'"
proof (cases e)
  case (SessionRestore socket sid)
  with assms(2) have "s' = fst (sessionRestore gameMap socket sid s)" by simp
  with assms(1) show ?thesis by (simp add: inv_sessionRestore)
next
  case (RoomCreate socket nm raw su draws pu)
  with assms(2) have "roomCreate socket nm raw su draws pu s = Some (s', out)" by simp
  with assms(1) show ?thesis by (rule inv_roomCreate)
next
  case (RoomJoin socket cd nm raw su pu)
  with assms(2) have "s' = fst (roomJoin js socket cd nm raw su pu s)" by simp
  with assms(1) show ?thesis by (simp add: inv_roomJoin)
next
  case (RoomSelectGame socket cd gid)
  with assms(2) have "s' = fst (roomSelectGame gameMap socket cd gid s)" by simp
  with assms(1) show ?thesis by (simp add: inv_roomSelectGame)
next
  case (RoomStart socket cd)
  with assms(2) have "s' = fst (roomStart socket cd s)" by simp
  with assms(1) show ?thesis by (simp add: inv_roomStart)
next
  case (RoomReset socket cd)
  with assms(2) have "s' = fst (roomReset socket cd s)" by simp
  with assms(1) show ?thesis by (simp add: inv_roomReset)
next
  case (RoomLeave socket)
  with assms(2) have "s' = fst (roomLeave socket s)" by simp
  with assms(1) show ?thesis by (simp add: inv_roomLeave)
next
  case (RoleSubmit socket cd rid)
  with assms(2) have "s' = fst (roleSubmit gameMap socket cd rid s)" by simp
  with assms(1) show ?thesis by (simp add: inv_roleSubmit)
next
  case (RoomRevealConfirm socket cd)
  with assms(2) have "s' = fst (roomRevealConfirm gameMap socket cd s)" by simp
  with assms(1) show ?thesis by (simp add: inv_roomRevealConfirm)
next
  case (Disconnect socket)
  with assms(2) have "s' = fst (disconnect socket s)" by simp
  with assms(1) show ?thesis by (simp add: inv_disconnect)
next
  case (TimerFires t)
  with assms(2) have "timerFires t s = Some (s', out)" by simp
  with assms(1) show ?thesis by (rule inv_timerFires)
qed

lemma inv_init: "storeInv init"
  by (simp add: storeInv_def liveInv_def timersInv_def init_def)

lemma reachable_inv: "reachable js gameMap s \<Longrightarrow> storeInv s"
  by (induction rule: reachable.induct) (auto intro: inv_init inv_step)

section \<open>Departures\<close>

lemma afterRemoval_effect:
  "players (roomObj (fst (afterRemoval r pid s)) r) = players (roomObj s r) \<and>
   nextRoom (fst (afterRemoval r pid s)) = nextRoom s \<and>
   (players (roomObj s r) = [] \<longrightarrow>
      rooms (fst (afterRemoval r pid s)) = (rooms s)(code (roomObj s r) := None)) \<and>
   (players (roomObj s r) \<noteq> [] \<longrightarrow>
      rooms (fst (afterRemoval r pid s)) = rooms s \<and>
      ownerId (roomObj (fst (afterRemoval r pid s)) r) =
        (if ownerId (roomObj s r) = pid then player_id (playerObj s (snd (hd (players (roomObj s r)))))
         else ownerId (roomObj s r)))"
  by (cases "players (roomObj s r)") (auto simp: afterRemoval_def Let_def updRoom_def)

lemma removePlayerFromRoom_effect:
  assumes "map_of (players (roomObj s r)) pid = Some a"
  shows "players (roomObj (fst (removePlayerFromRoom r pid sid socket s)) r) =
           AList.delete pid (players (roomObj s r)) \<and>
         (AList.delete pid (players (roomObj s r)) = [] \<longrightarrow>
            rooms (fst (removePlayerFromRoom r pid sid socket s)) = (rooms s)(code (roomObj s r) := None)) \<and>
         (AList.delete pid (players (roomObj s r)) \<noteq> [] \<longrightarrow>
            rooms (fst (removePlayerFromRoom r pid sid socket s)) = rooms s \<and>
            ownerId (roomObj (fst (removePlayerFromRoom r pid sid socket s)) r) =
              (if ownerId (roomObj s r) = pid
               then player_id (playerObj s (snd (hd (AList.delete pid (players (roomObj s r))))))
               else ownerId (roomObj s r)))"
proof -
  define s1 where "s1 = (case disconnectTimer (playerObj s a) of
                       None \<Rightarrow> s
                     | Some t \<Rightarrow> updPlayer a (\<lambda>p. p\<lparr>disconnectTimer := None\<rparr>) (clearTimeout t s))"
  define s2 where "s2 = updRoom r (\<lambda>rm. rm\<lparr>players := AList.delete pid (players rm)\<rparr>) s1"
  define s3 where "s3 = (if sid \<noteq> [] then s2\<lparr>sessionIndex := (sessionIndex s2)(sid := None)\<rparr> else s2)"
  define s4 where "s4 = (if socket \<noteq> [] then s3\<lparr>socketIndex := (socketIndex s3)(socket := None)\<rparr> else s3)"
  have res: "removePlayerFromRoom r pid sid socket s = afterRemoval r pid s4"
    using assms by (simp add: removePlayerFromRoom_tail Let_def s1_def s2_def s3_def s4_def)
  have 1: "roomObj s1 = roomObj s" "rooms s1 = rooms s" "\<And>b. player_id (playerObj s1 b) = player_id (playerObj s b)"
    by (simp_all add: s1_def updPlayer_def clearTimeout_def split: option.splits)
  have 4: "roomObj s4 r = (roomObj s r)\<lparr>players := AList.delete pid (players (roomObj s r))\<rparr>"
    "rooms s4 = rooms s" "\<And>b. player_id (playerObj s4 b) = player_id (playerObj s b)"
    by (simp_all add: s4_def s3_def s2_def updRoom_def 1)
  from afterRemoval_effect[of r pid s4] show ?thesis
    unfolding res by (simp add: 4)
qed

lemma graceCallback_effect:
  assumes "\<not> connected (playerObj s a)"
  shows "players (roomObj (fst (graceCallback r a s)) r) =
           AList.delete (player_id (playerObj s a)) (players (roomObj s r)) \<and>
         (AList.delete (player_id (playerObj s a)) (players (roomObj s r)) = [] \<longrightarrow>
            rooms (fst (graceCallback r a s)) = (rooms s)(code (roomObj s r) := None)) \<and>
         (AList.delete (player_id (playerObj s a)) (players (roomObj s r)) \<noteq> [] \<longrightarrow>
            rooms (fst (graceCallback r a s)) = rooms s \<and>
            ownerId (roomObj (fst (graceCallback r a s)) r) =
              (if ownerId (roomObj s r) = player_id (playerObj s a)
               then player_id (playerObj s (snd (hd (AList.delete (player_id (playerObj s a))
                                                       (players (roomObj s r))))))
               else ownerId (roomObj s r)))"
proof -
  define pid where "pid = player_id (playerObj s a)"
  define s2 where "s2 = (let s1 = updRoom r (\<lambda>rm. rm\<lparr>players := AList.delete pid (players rm)\<rparr>) s
                         in s1\<lparr>sessionIndex := (sessionIndex s1)(sessionId (playerObj s1 a) := None)\<rparr>)"
  have res: "graceCallback r a s = afterRemoval r pid s2"
    using assms by (simp add: graceCallback_tail Let_def s2_def pid_def)
  have 2: "roomObj s2 r = (roomObj s r)\<lparr>players := AList.delete pid (players (roomObj s r))\<rparr>"
    "rooms s2 = rooms s" "playerObj s2 = playerObj s"
    by (simp_all add: s2_def Let_def updRoom_def)
  from afterRemoval_effect[of r pid s2] show ?thesis
    unfolding res pid_def[symmetric] by (simp add: 2)
qed

lemma first_remaining_key:
  assumes "roomInv s rm" and "AList.delete pid (players rm) \<noteq> []"
  shows "player_id (playerObj s (snd (hd (AList.delete pid (players rm))))) =
         fst (hd (AList.delete pid (players rm)))"
proof -
  from assms(2) have "hd (AList.delete pid (players rm)) \<in> set (AList.delete pid (players rm))"
    by (rule hd_in_set)
  then have "hd (AList.delete pid (players rm)) \<in> set (players rm)"
    by (simp add: AList.delete_eq)
  with assms(1) show ?thesis
    by (auto simp: roomInv_def list_all_iff)
qed

text \<open>
  The order of the player Map is the order of joining: a join under an id that is not yet
  a key appends the new player.
\<close>

lemma update_fresh_appends:
  "k \<notin> fst ` set ps \<Longrightarrow> AList.update k v ps = ps @ [(k, v)]"
  by (induction ps) auto

lemma roomJoin_appends:
  assumes "truthy cd" and "truthy nm"
    and "rooms s (orElse cd []) = Some r"
    and "\<not> list_ex (\<lambda>p. normalizeName js (player_name p) = normalizeName js (orElse nm []))
             (playerValues (playerObj s) (roomObj s r))"
    and "phase (roomObj s r) = Lobby"
    and "pu \<notin> fst ` set (players (roomObj s r))"
  shows "players (roomObj (fst (roomJoin js socket cd nm raw su pu s)) r) =
         players (roomObj s r) @ [(pu, nextPlayer s)]"
  using assms
  by (simp add: roomJoin_def Let_def newPlayer_def createPlayer_def bindSession_frame updRoom_def
      update_fresh_appends)

text \<open>
  Claim C3. In a reachable state, after a \<open>room:leave\<close> of a connection bound to a live
  room, and after the expiry of a disconnect timer, if the room still has a player then
  its \<open>ownerId\<close> is a key of its player Map. When the player removed was the owner, the
  new owner is the first remaining entry of the Map in insertion order, that is, the
  earliest-joined remaining player.
\<close>

theorem owner_present_after_departure:
  assumes "reachable js gameMap s"
  shows "(socketIndex s socket = Some index \<and> rooms s (ix_code index) = Some r \<and>
          players (roomObj (fst (roomLeave socket s)) r) \<noteq> [] \<longrightarrow>
            ownerId (roomObj (fst (roomLeave socket s)) r)
              \<in> fst ` set (players (roomObj (fst (roomLeave socket s)) r)) \<and>
            (map_of (players (roomObj s r)) (ix_playerId index) \<noteq> None \<and>
             ownerId (roomObj s r) = ix_playerId index \<longrightarrow>
               ownerId (roomObj (fst (roomLeave socket s)) r) =
                 fst (hd (AList.delete (ix_playerId index) (players (roomObj s r)))))) \<and>
         (timers s t = Some (r', a) \<and> timerFires t s = Some (s', out) \<and>
          players (roomObj s' r') \<noteq> [] \<longrightarrow>
            ownerId (roomObj s' r') \<in> fst ` set (players (roomObj s' r')) \<and>
            (\<not> connected (playerObj s a) \<and> ownerId (roomObj s r') = player_id (playerObj s a) \<longrightarrow>
               ownerId (roomObj s' r') =
                 fst (hd (AList.delete (player_id (playerObj s a)) (players (roomObj s r'))))))"
proof (intro conjI impI)
  assume a: "socketIndex s socket = Some index \<and> rooms s (ix_code index) = Some r \<and>
          players (roomObj (fst (roomLeave socket s)) r) \<noteq> []"
  let ?s' = "fst (roomLeave socket s)"
  have "step js gameMap (RoomLeave socket) s = Some (?s', snd (roomLeave socket s))" by simp
  with assms have "reachable js gameMap ?s'" by (rule reachable_step)
  then have i': "storeInv ?s'" by (rule reachable_inv)
  from a have res: "?s' = fst (removePlayerFromRoom r (ix_playerId index) (ix_sessionId index) socket s)"
    by (simp add: roomLeave_def Let_def case_prod_beta)
  from a inv_live[OF reachable_inv[OF assms]] have "r < nextRoom s" by blast
  moreover have "nextRoom ?s' = nextRoom s"
    unfolding res
    by (simp add: removePlayerFromRoom_tail Let_def afterRemoval_effect updRoom_def updPlayer_def
        clearTimeout_def split: option.splits)
  ultimately have "roomInv ?s' (roomObj ?s' r)" using i' by (simp add: inv_room)
  with a show "ownerId (roomObj ?s' r) \<in> fst ` set (players (roomObj ?s' r))"
    by (auto simp: roomInv_def)
next
  assume a: "socketIndex s socket = Some index \<and> rooms s (ix_code index) = Some r \<and>
          players (roomObj (fst (roomLeave socket s)) r) \<noteq> []"
    and b: "map_of (players (roomObj s r)) (ix_playerId index) \<noteq> None \<and>
            ownerId (roomObj s r) = ix_playerId index"
  let ?s' = "fst (roomLeave socket s)"
  let ?pid = "ix_playerId index"
  from a have res: "?s' = fst (removePlayerFromRoom r ?pid (ix_sessionId index) socket s)"
    by (simp add: roomLeave_def Let_def case_prod_beta)
  from b obtain pl where pl: "map_of (players (roomObj s r)) ?pid = Some pl" by blast
  note eff = removePlayerFromRoom_effect[OF pl, of "ix_sessionId index" socket]
  from eff a res have ne: "AList.delete ?pid (players (roomObj s r)) \<noteq> []" by simp
  from a inv_live[OF reachable_inv[OF assms]] have "r < nextRoom s" by blast
  with reachable_inv[OF assms] have "roomInv s (roomObj s r)" by (rule inv_room)
  from first_remaining_key[OF this ne] eff ne b res
  show "ownerId (roomObj ?s' r) = fst (hd (AList.delete ?pid (players (roomObj s r))))"
    by simp
next
  assume a: "timers s t = Some (r', a) \<and> timerFires t s = Some (s', out) \<and>
          players (roomObj s' r') \<noteq> []"
  then have "step js gameMap (TimerFires t) s = Some (s', out)" by simp
  with assms have "reachable js gameMap s'" by (rule reachable_step)
  then have i': "storeInv s'" by (rule reachable_inv)
  from a have res: "s' = fst (graceCallback r' a (clearTimeout t s))"
    by (auto simp: timerFires_def)
  from a inv_timer[OF reachable_inv[OF assms]] have "r' < nextRoom s" by blast
  moreover have "nextRoom s' = nextRoom s"
    unfolding res
    by (simp add: graceCallback_tail Let_def afterRemoval_effect updRoom_def clearTimeout_def)
  ultimately have "roomInv s' (roomObj s' r')" using i' by (simp add: inv_room)
  with a show "ownerId (roomObj s' r') \<in> fst ` set (players (roomObj s' r'))"
    by (auto simp: roomInv_def)
next
  assume a: "timers s t = Some (r', a) \<and> timerFires t s = Some (s', out) \<and>
          players (roomObj s' r') \<noteq> []"
    and b: "\<not> connected (playerObj s a) \<and> ownerId (roomObj s r') = player_id (playerObj s a)"
  let ?pid = "player_id (playerObj s a)"
  let ?s0 = "clearTimeout t s"
  from a have res: "s' = fst (graceCallback r' a ?s0)"
    by (auto simp: timerFires_def)
  have fr: "playerObj ?s0 = playerObj s" "roomObj ?s0 = roomObj s" by (simp_all add: clearTimeout_def)
  from b have "\<not> connected (playerObj ?s0 a)" by (simp add: fr)
  note eff = graceCallback_effect[OF this, of r']
  from eff a res have ne: "AList.delete ?pid (players (roomObj s r')) \<noteq> []" by (simp add: fr)
  from a inv_timer[OF reachable_inv[OF assms]] have "r' < nextRoom s" by blast
  with reachable_inv[OF assms] have "roomInv s (roomObj s r')" by (rule inv_room)
  from first_remaining_key[OF this ne] eff ne b res
  show "ownerId (roomObj s' r') = fst (hd (AList.delete ?pid (players (roomObj s r'))))"
    by (simp add: fr)
qed

lemma demoState_leave:
  "roomObj (fst (roomLeave ''s1'' demoState)) 0 =
     \<lparr>code = ''1234'', ownerId = ''p2'', gameId = Some ''avalon'', phase = Reveal,
      players = [(''p2'', 1), (''p3'', 2), (''p4'', 3)]\<rparr>"
  by (simp add: demoState_eq handler_defs Let_def AList.delete_eq init_def)

lemma demoState_disconnect:
  "timers (fst (disconnect ''s1'' demoState)) 0 = Some (0, 0)"
  "connected (playerObj (fst (disconnect ''s1'' demoState)) 0) = False"
  "player_id (playerObj (fst (disconnect ''s1'' demoState)) 0) = ''p1''"
  "roomObj (fst (disconnect ''s1'' demoState)) 0 = roomObj demoState 0"
  "reachable asciiJs demoGameMap (fst (disconnect ''s1'' demoState))"
proof -
  have "step asciiJs demoGameMap (Disconnect ''s1'') demoState =
          Some (fst (disconnect ''s1'' demoState), snd (disconnect ''s1'' demoState))" by simp
  with demo_reachable(1) show "reachable asciiJs demoGameMap (fst (disconnect ''s1'' demoState))"
    by (rule reachable_step)
qed (simp_all add: demoState_eq handler_defs Let_def init_def)

text \<open>
  Ann owns the example room. When Ann leaves, and when Ann disconnects and the timer
  expires, Bob, who joined first after Ann, is the owner.
\<close>

theorem owner_present_after_departure_witness:
  "ownerId (roomObj (fst (roomLeave ''s1'' demoState)) 0) = ''p2'' \<and>
   ownerId (roomObj (run asciiJs demoGameMap [TimerFires 0] (fst (disconnect ''s1'' demoState))) 0) = ''p2''"
proof -
  let ?ix = "\<lparr>ix_code = ''1234'', ix_playerId = ''p1'', ix_sessionId = ''u1''\<rparr>"
  let ?d = "fst (disconnect ''s1'' demoState)"
  have l: "socketIndex demoState ''s1'' = Some ?ix \<and> rooms demoState (ix_code ?ix) = Some 0 \<and>
           players (roomObj (fst (roomLeave ''s1'' demoState)) 0) \<noteq> []"
    by (simp add: demoState_leave) (simp add: demoState_eq)
  have l2: "map_of (players (roomObj demoState 0)) (ix_playerId ?ix) \<noteq> None \<and>
            ownerId (roomObj demoState 0) = ix_playerId ?ix"
    by (simp add: demoState_room)
  from owner_present_after_departure[OF demo_reachable(1), where socket = "''s1''" and index = ?ix
      and r = 0] l l2
  have "ownerId (roomObj (fst (roomLeave ''s1'' demoState)) 0) =
          fst (hd (AList.delete (ix_playerId ?ix) (players (roomObj demoState 0))))"
    by blast
  then have 1: "ownerId (roomObj (fst (roomLeave ''s1'' demoState)) 0) = ''p2''"
    by (simp add: demoState_room AList.delete_eq)
  let ?g = "graceCallback 0 0 (clearTimeout 0 ?d)"
  have f: "timerFires 0 ?d = Some (fst ?g, snd ?g)"
    by (simp add: timerFires_def demoState_disconnect)
  then have run: "run asciiJs demoGameMap [TimerFires 0] ?d = fst ?g" by (simp add: case_prod_beta)
  have ne: "players (roomObj (fst ?g) 0) \<noteq> []"
    by (simp add: demoState_disconnect graceCallback_tail Let_def
        afterRemoval_effect updRoom_def clearTimeout_def demoState_room AList.delete_eq)
  have own: "\<not> connected (playerObj ?d 0) \<and> ownerId (roomObj ?d 0) = player_id (playerObj ?d 0)"
    by (simp add: demoState_disconnect demoState_room)
  from owner_present_after_departure[OF demoState_disconnect(5), where t = 0 and r' = 0 and a = 0
      and s' = "fst ?g" and out = "snd ?g"] demoState_disconnect(1) f ne own
  have "ownerId (roomObj (fst ?g) 0) =
          fst (hd (AList.delete (player_id (playerObj ?d 0)) (players (roomObj ?d 0))))"
    by blast
  then have 2: "ownerId (roomObj (fst ?g) 0) = ''p2''"
    by (simp add: demoState_disconnect demoState_room AList.delete_eq)
  from 1 2 run show ?thesis by simp
qed

text \<open>
  Claim C4. In a reachable state every room filed in \<open>rooms\<close> has a player. When a
  \<open>room:leave\<close> leaves the room of the connection empty, the code of the room is no
  longer a key of \<open>rooms\<close>; when the callback of a disconnect timer removes its player
  (the player is still disconnected) and leaves the room empty, the code of the room is
  no longer a key of \<open>rooms\<close>.
\<close>

theorem empty_room_is_deleted:
  assumes "reachable js gameMap s"
  shows "(rooms s c = Some r \<longrightarrow> players (roomObj s r) \<noteq> []) \<and>
         (socketIndex s socket = Some index \<and> rooms s (ix_code index) = Some r1 \<and>
          players (roomObj (fst (roomLeave socket s)) r1) = [] \<longrightarrow>
            rooms (fst (roomLeave socket s)) (ix_code index) = None) \<and>
         (timers s t = Some (r2, a) \<and> timerFires t s = Some (s', out) \<and>
          \<not> connected (playerObj s a) \<and> players (roomObj s' r2) = [] \<longrightarrow>
            rooms s' (code (roomObj s r2)) = None)"
proof (intro conjI impI)
  assume "rooms s c = Some r"
  with inv_live[OF reachable_inv[OF assms]] show "players (roomObj s r) \<noteq> []" by blast
next
  assume a: "socketIndex s socket = Some index \<and> rooms s (ix_code index) = Some r1 \<and>
          players (roomObj (fst (roomLeave socket s)) r1) = []"
  let ?s' = "fst (roomLeave socket s)"
  let ?pid = "ix_playerId index"
  from a have res: "?s' = fst (removePlayerFromRoom r1 ?pid (ix_sessionId index) socket s)"
    by (simp add: roomLeave_def Let_def case_prod_beta)
  from a inv_live[OF reachable_inv[OF assms]]
  have live: "code (roomObj s r1) = ix_code index" "players (roomObj s r1) \<noteq> []" by blast+
  show "rooms ?s' (ix_code index) = None"
  proof (cases "map_of (players (roomObj s r1)) ?pid")
    case None
    then have "?s' = s" unfolding res by (simp add: removePlayerFromRoom_tail)
    with a live show ?thesis by simp
  next
    case (Some pl)
    note eff = removePlayerFromRoom_effect[OF Some, of "ix_sessionId index" socket]
    from eff a res have "AList.delete ?pid (players (roomObj s r1)) = []" by simp
    with eff res live show ?thesis by simp
  qed
next
  assume a: "timers s t = Some (r2, a) \<and> timerFires t s = Some (s', out) \<and>
          \<not> connected (playerObj s a) \<and> players (roomObj s' r2) = []"
  let ?s0 = "clearTimeout t s"
  from a have res: "s' = fst (graceCallback r2 a ?s0)"
    by (auto simp: timerFires_def)
  have fr: "playerObj ?s0 = playerObj s" "roomObj ?s0 = roomObj s" "rooms ?s0 = rooms s"
    by (simp_all add: clearTimeout_def)
  from a have "\<not> connected (playerObj ?s0 a)" by (simp add: fr)
  note eff = graceCallback_effect[OF this, of r2]
  from eff a res have "AList.delete (player_id (playerObj s a)) (players (roomObj s r2)) = []"
    by (simp add: fr)
  with eff res show "rooms s' (code (roomObj s r2)) = None" by (simp add: fr)
qed

lemma soloState_room:
  "roomObj soloState 0 =
     \<lparr>code = ''1234'', ownerId = ''p1'', gameId = None, phase = Lobby, players = [(''p1'', 0)]\<rparr>"
  by (simp add: soloState_eq)

lemma soloState_disconnect:
  "timers (fst (disconnect ''s1'' soloState)) 0 = Some (0, 0)"
  "connected (playerObj (fst (disconnect ''s1'' soloState)) 0) = False"
  "player_id (playerObj (fst (disconnect ''s1'' soloState)) 0) = ''p1''"
  "roomObj (fst (disconnect ''s1'' soloState)) 0 = roomObj soloState 0"
  "rooms (fst (disconnect ''s1'' soloState)) = rooms soloState"
  "reachable asciiJs demoGameMap (fst (disconnect ''s1'' soloState))"
proof -
  have "step asciiJs demoGameMap (Disconnect ''s1'') soloState =
          Some (fst (disconnect ''s1'' soloState), snd (disconnect ''s1'' soloState))" by simp
  with demo_reachable(3) show "reachable asciiJs demoGameMap (fst (disconnect ''s1'' soloState))"
    by (rule reachable_step)
qed (simp_all add: soloState_eq handler_defs Let_def init_def)

text \<open>
  The example room has players. Ann alone in a room: when Ann leaves, and when Ann
  disconnects and the timer expires, code 1234 is free again.
\<close>

theorem empty_room_is_deleted_witness:
  "players (roomObj demoState 0) \<noteq> [] \<and>
   rooms (fst (roomLeave ''s1'' soloState)) ''1234'' = None \<and>
   rooms (run asciiJs demoGameMap [TimerFires 0] (fst (disconnect ''s1'' soloState))) ''1234'' = None"
proof -
  let ?ix = "\<lparr>ix_code = ''1234'', ix_playerId = ''p1'', ix_sessionId = ''u1''\<rparr>"
  let ?d = "fst (disconnect ''s1'' soloState)"
  let ?g = "graceCallback 0 0 (clearTimeout 0 ?d)"
  have live: "rooms demoState ''1234'' = Some 0" by (simp add: demoState_eq)
  from empty_room_is_deleted[OF demo_reachable(1), where c = "''1234''" and r = 0] live
  have 1: "players (roomObj demoState 0) \<noteq> []" by blast
  have l: "socketIndex soloState ''s1'' = Some ?ix \<and> rooms soloState (ix_code ?ix) = Some 0 \<and>
           players (roomObj (fst (roomLeave ''s1'' soloState)) 0) = []"
    by (simp add: soloState_eq handler_defs Let_def AList.delete_eq init_def)
  from empty_room_is_deleted[OF demo_reachable(3), where socket = "''s1''" and index = ?ix and ?r1.0 = 0] l
  have 2: "rooms (fst (roomLeave ''s1'' soloState)) ''1234'' = None" by simp
  have f: "timerFires 0 ?d = Some (fst ?g, snd ?g)"
    by (simp add: timerFires_def soloState_disconnect)
  then have run: "run asciiJs demoGameMap [TimerFires 0] ?d = fst ?g" by (simp add: case_prod_beta)
  have e: "players (roomObj (fst ?g) 0) = []"
    by (simp add: soloState_disconnect graceCallback_tail Let_def
        afterRemoval_effect updRoom_def clearTimeout_def soloState_room AList.delete_eq)
  from empty_room_is_deleted[OF soloState_disconnect(6), where t = 0 and ?r2.0 = 0 and a = 0
      and s' = "fst ?g" and out = "snd ?g"] soloState_disconnect(1,2) f e
  have "rooms (fst ?g) (code (roomObj ?d 0)) = None" by blast
  then have 3: "rooms (fst ?g) ''1234'' = None"
    by (simp add: soloState_disconnect soloState_room)
  from 1 2 3 run show ?thesis by simp
qed

section \<open>Visibility in reachable rooms\<close>




end
